theory Spec2Isabelle
  imports Complex_Main "HOL-Library.AList"
begin

section \<open>The authoritative room/round engine of server/index.js\<close>

text \<open>
  The server keeps one mutable object \<^verbatim>\<open>gameState\<close> and reacts to socket events, a
  one-second tick and one-shot timers, all on one thread. Every handler is embedded as a
  function from the state before to the state after together with the list of messages it
  emits, in emission order. An uncaught JavaScript exception is a value \<open>Inl TypeError\<close>.

  Conventions of the embedding:
  \<^item> finite JavaScript numbers that the client supplies or that are multiplied with the
    vehicle multipliers are rationals (exact arithmetic stands for IEEE doubles, so
    there is no overflow to an infinite value); kill and death counters and timestamps
    are integers; health and damage dealt are integers or \<^verbatim>\<open>NaN\<close>, which a damage
    payload that is not a number brings in;
  \<^item> \<^verbatim>\<open>Math.round(x)\<close> is \<open>\<lfloor>x + 1/2\<rfloor>\<close>;
  \<^item> every call of \<^verbatim>\<open>Date.now()\<close> inside one handler run reads the same instant \<open>now\<close>,
    a parameter of the handler;
  \<^item> every draw of \<^verbatim>\<open>Math.random()\<close> is read from an \<open>rng\<close> parameter;
  \<^item> a JavaScript \<^verbatim>\<open>Map\<close> that the code iterates is an association list in insertion
    order, a \<^verbatim>\<open>Set\<close> is a duplicate-free list in insertion order, and a \<^verbatim>\<open>Map\<close> that
    is only looked up is a HOL map;
  \<^item> \<^verbatim>\<open>null\<close> and \<^verbatim>\<open>undefined\<close> are \<open>None\<close>, except where a handler tells them apart:
    in the \<^verbatim>\<open>damage\<close> field of a damage event and in the rotation of a move;
  \<^item> the payload object of an event is present, except for the damage event, whose
    payload may be missing.
\<close>

subsection \<open>Numbers and payload values\<close>

text \<open>
  A number the server stores after \<^verbatim>\<open>Math.round\<close>: an integer or \<^verbatim>\<open>NaN\<close>. Arithmetic
  and \<^verbatim>\<open>Math.min\<close>/\<^verbatim>\<open>Math.max\<close> give \<^verbatim>\<open>NaN\<close> as soon as one operand is \<^verbatim>\<open>NaN\<close>;
  every comparison with \<^verbatim>\<open>NaN\<close> is false.
\<close>

datatype jsnum = Fin int | NaN

fun js_add :: "jsnum \<Rightarrow> jsnum \<Rightarrow> jsnum" where
  "js_add (Fin a) (Fin b) = Fin (a + b)"
| "js_add _ _ = NaN"

fun js_sub :: "jsnum \<Rightarrow> jsnum \<Rightarrow> jsnum" where
  "js_sub (Fin a) (Fin b) = Fin (a - b)"
| "js_sub _ _ = NaN"

fun js_neg :: "jsnum \<Rightarrow> jsnum" where
  "js_neg (Fin a) = Fin (- a)"
| "js_neg NaN = NaN"

fun js_min :: "jsnum \<Rightarrow> jsnum \<Rightarrow> jsnum" where
  "js_min (Fin a) (Fin b) = Fin (min a b)"
| "js_min _ _ = NaN"

fun js_max :: "jsnum \<Rightarrow> jsnum \<Rightarrow> jsnum" where
  "js_max (Fin a) (Fin b) = Fin (max a b)"
| "js_max _ _ = NaN"

fun js_le :: "jsnum \<Rightarrow> jsnum \<Rightarrow> bool" where
  "js_le (Fin a) (Fin b) = (a \<le> b)"
| "js_le _ _ = False"

text \<open>
  The \<^verbatim>\<open>damage\<close> field of a payload as it arrives, by what the handler's operators make
  of it: absent (\<^verbatim>\<open>undefined\<close>); \<^verbatim>\<open>null\<close>, which \<^verbatim>\<open>< 0\<close> and \<^verbatim>\<open>*\<close> read as 0;
  a value these operators read as a finite number (a number, a numeric string, a
  boolean); any other value (a word, an object), which they read as \<^verbatim>\<open>NaN\<close>.
  Values that read as infinite (the literal \<^verbatim>\<open>1e999\<close>) are left out, as overflow is.
\<close>

datatype js_value = Undefined | Null | Number rat | NonNumeric

text \<open>\<^verbatim>\<open>ToNumber\<close>; \<open>None\<close> is \<^verbatim>\<open>NaN\<close>.\<close>

fun toNumber :: "js_value \<Rightarrow> rat option" where
  "toNumber Undefined = None"
| "toNumber Null = Some 0"
| "toNumber (Number r) = Some r"
| "toNumber NonNumeric = None"

subsection \<open>Data\<close>

type_synonym sid = string
type_synonym room_id = string
type_synonym position = "rat \<times> rat \<times> rat"

record vehicle_config =
  vid :: string
  damageDealtMultiplier :: rat
  damageTakenMultiplier :: rat
  maxHealth :: int

record player =
  player_id :: sid
  name :: string
  position :: position
  rotation :: "rat option"
  health :: jsnum
  vehicle :: vehicle_config
  room :: "room_id option"
  connectedAt :: int
  invulnerableUntil :: int
  shieldUntil :: "int option"

datatype phase = Waiting | Playing | RoundEnd

datatype powerup_type = HealthPowerup | ShieldPowerup

record powerup =
  powerup_id :: string
  ptype :: powerup_type
  pposition :: position
  dropTime :: int
  collected :: bool
  landTime :: int
  despawnTime :: int

record stats =
  kills :: int
  deaths :: int
  damageDealt :: jsnum
  playerName :: string

record room_state =
  phase :: phase
  roundStartTime :: "int option"
  roundEndTime :: "int option"
  waitingStartTime :: "int option"
  leaderboard :: "(sid \<times> stats) list"
  activePlayers :: "sid list"
  respawningPlayers :: "(sid \<times> int) list"
  powerups :: "(string \<times> powerup) list"
  lastPowerupDrop :: int

type_synonym boost_pad = "string \<times> rat \<times> rat \<times> rat"

text \<open>
  \<open>gameStates\<close> is keyed by what \<^verbatim>\<open>player.room\<close> can hold, so also by \<^verbatim>\<open>null\<close>.
  \<open>timers\<close> is the queue of pending \<^verbatim>\<open>setTimeout\<close> callbacks: due time and the room the
  callback will call \<^verbatim>\<open>startRound\<close> for.
\<close>

record game_state =
  players :: "sid \<rightharpoonup> player"
  rooms :: "room_id \<rightharpoonup> sid list"
  gameStates :: "room_id option \<rightharpoonup> room_state"
  boostPads :: "room_id \<rightharpoonup> boost_pad list"
  timers :: "(int \<times> room_id) list"

definition maxPlayersPerRoom :: nat where "maxPlayersPerRoom = 8"
definition roundDuration :: int where "roundDuration = 4 * 60 * 1000"
definition waitingDuration :: int where "waitingDuration = 1 * 60 * 1000"
definition respawnDuration :: int where "respawnDuration = 3 * 1000"
definition spawnInvulnerableMs :: int where "spawnInvulnerableMs = 2000"
definition entryDescentMs :: int where "entryDescentMs = 8000"
definition respawnDescentMs :: int where "respawnDescentMs = 3000"

subsection \<open>Outbound messages\<close>

text \<open>
  \<^verbatim>\<open>io.to(r).emit\<close> reaches every socket in room \<open>r\<close>, \<^verbatim>\<open>socket.to(r).emit\<close> every
  socket in \<open>r\<close> but the sender, \<^verbatim>\<open>socket.emit\<close> the sender alone.
\<close>

datatype dest = ToRoom "room_id option" | ToOthers sid "room_id option" | ToSocket sid

type_synonym player_view = "sid \<times> position \<times> jsnum \<times> string"

datatype msg =
    GameStateMsg sid
  | PlayerMoved sid position "rat option"
  | PlayerVehicleChanged sid string
  | PlayerSpawn position jsnum int
  | PlayerDamaged sid jsnum jsnum string string
  | PlayerDestroyed sid int sid
  | PlayerRespawned sid position jsnum string
  | WaitingPhaseStarted int
  | RoundStarted "int option" "player_view list"
  | RoundEnded "(sid \<times> stats) list" int jsnum "int option"
  | Standings "(sid \<times> stats) list" phase
  | PowerupDropped string powerup_type position int
  | PowerupCollected string sid powerup_type
  | PowerupRemoved string
  | ShieldActivated int int
  | PlayerShielded sid int
  | ChatMessage sid string string int bool
  | RoomJoined room_id "(sid \<times> string \<times> position \<times> jsnum \<times> string) list"
      phase "int option" "int option" "boost_pad list"
  | PlayerJoined sid string position jsnum string
  | PlayerLeft sid
  | RoomFull room_id

type_synonym emit = "dest \<times> msg"

datatype error = TypeError

type_synonym outcome = "error + (game_state \<times> emit list)"

subsection \<open>Randomness\<close>

text \<open>
  The draws of \<^verbatim>\<open>Math.random()\<close>, each in \<open>[0, 1)\<close>: three per spawn position, asked per
  player; three per powerup drop (type, x, z) and the random part of the powerup id, asked
  per room.
\<close>

record rng =
  spawnRnd :: "sid \<Rightarrow> rat \<times> rat \<times> rat"
  joinRnd :: "rat \<times> rat \<times> rat"
  dropRnd :: "room_id \<Rightarrow> rat \<times> rat \<times> rat"
  newPowerupId :: "room_id \<Rightarrow> string"

subsection \<open>Helpers of the language\<close>

definition js_round :: "rat \<Rightarrow> int" where
  "js_round x = \<lfloor>x + 1 / 2\<rfloor>"

definition set_add :: "'a \<Rightarrow> 'a list \<Rightarrow> 'a list" where
  "set_add x xs = (if x \<in> set xs then xs else xs @ [x])"

definition set_delete :: "'a \<Rightarrow> 'a list \<Rightarrow> 'a list" where
  "set_delete x xs = removeAll x xs"

definition displayName :: "player \<Rightarrow> sid \<Rightarrow> string" where
  "displayName p s = (if name p = [] then ''Player_'' @ take 6 s else name p)"

text \<open>\<^verbatim>\<open>if (player.room)\<close>: the room of a player when it is neither null nor empty.\<close>

definition roomOf :: "player \<Rightarrow> room_id option" where
  "roomOf p = (case room p of None \<Rightarrow> None | Some r \<Rightarrow> if r = [] then None else Some r)"

definition vehicleIdOf :: "player \<Rightarrow> string" where
  "vehicleIdOf p = (if vid (vehicle p) = [] then ''balanced'' else vid (vehicle p))"

text \<open>
  \<^verbatim>\<open>String.prototype.trim\<close> on strings whose code units are below 256: tab, line feed,
  vertical tab, form feed, carriage return, space and no-break space are white space.
\<close>

definition isWhitespace :: "char \<Rightarrow> bool" where
  "isWhitespace c = ((of_char c :: nat) \<in> {9, 10, 11, 12, 13, 32, 160})"

definition js_trim :: "string \<Rightarrow> string" where
  "js_trim str = rev (dropWhile isWhitespace (rev (dropWhile isWhitespace str)))"

subsection \<open>Room state\<close>

definition initialRoomState :: room_state where
  "initialRoomState =
     \<lparr> phase = Waiting, roundStartTime = None, roundEndTime = None,
       waitingStartTime = None, leaderboard = [], activePlayers = [],
       respawningPlayers = [], powerups = [], lastPowerupDrop = 0 \<rparr>"

definition initializeRoomGameState :: "room_id option \<Rightarrow> game_state \<Rightarrow> game_state" where
  "initializeRoomGameState roomId s =
     s\<lparr>gameStates := (gameStates s)(roomId \<mapsto> initialRoomState)\<rparr>"

definition getRoomGameState :: "room_id option \<Rightarrow> game_state \<Rightarrow> game_state \<times> room_state" where
  "getRoomGameState roomId s =
     (case gameStates s roomId of
        None \<Rightarrow> (initializeRoomGameState roomId s, initialRoomState)
      | Some rs \<Rightarrow> (s, rs))"

text \<open>Writing through the reference that \<^verbatim>\<open>getRoomGameState\<close> returned.\<close>

definition putRoomState :: "room_id option \<Rightarrow> room_state \<Rightarrow> game_state \<Rightarrow> game_state" where
  "putRoomState roomId rs s = s\<lparr>gameStates := (gameStates s)(roomId \<mapsto> rs)\<rparr>"

definition putPlayer :: "sid \<Rightarrow> player \<Rightarrow> game_state \<Rightarrow> game_state" where
  "putPlayer i p s = s\<lparr>players := (players s)(i \<mapsto> p)\<rparr>"

subsection \<open>The damage handler\<close>

record damage_data =
  damage :: js_value
  targetPlayerId :: sid
  collisionType :: "string option"

text \<open>\<^verbatim>\<open>data.collisionType || ''\<close> and \<^verbatim>\<open>data.collisionType || 'normal'\<close>.\<close>

definition collisionOr :: "string \<Rightarrow> string option \<Rightarrow> string" where
  "collisionOr d c = (case c of None \<Rightarrow> d | Some t \<Rightarrow> if t = [] then d else t)"

text \<open>
  \<^verbatim>\<open>Math.max(0, Math.round(x))\<close> of a product that is \<^verbatim>\<open>NaN\<close> is \<^verbatim>\<open>NaN\<close>.
\<close>

definition finalDamageOf :: "damage_data \<Rightarrow> player \<Rightarrow> player \<Rightarrow> jsnum" where
  "finalDamageOf data attackingPlayer targetPlayer =
     (if collisionOr [] (collisionType data) = ''monster''
      then (let maxH = maxHealth (vehicle targetPlayer)
            in Fin (max 0 (js_round (of_int maxH * (20 / 100)))))
      else (let attackerMod = damageDealtMultiplier (vehicle attackingPlayer);
                targetMod = damageTakenMultiplier (vehicle targetPlayer)
            in case toNumber (damage data) of
                 None \<Rightarrow> NaN
               | Some dmg \<Rightarrow> Fin (max 0 (js_round (dmg * attackerMod * targetMod)))))"

definition bumpDamageDealt :: "sid \<Rightarrow> jsnum \<Rightarrow> room_state \<Rightarrow> room_state" where
  "bumpDamageDealt i d rs =
     (case map_of (leaderboard rs) i of
        None \<Rightarrow> rs
      | Some st \<Rightarrow> rs\<lparr>leaderboard :=
          AList.update i (st\<lparr>damageDealt := js_add (damageDealt st) d\<rparr>) (leaderboard rs)\<rparr>)"

definition bumpKills :: "sid \<Rightarrow> room_state \<Rightarrow> room_state" where
  "bumpKills i rs =
     (case map_of (leaderboard rs) i of
        None \<Rightarrow> rs
      | Some st \<Rightarrow> rs\<lparr>leaderboard :=
          AList.update i (st\<lparr>kills := kills st + 1\<rparr>) (leaderboard rs)\<rparr>)"

definition bumpDeaths :: "sid \<Rightarrow> room_state \<Rightarrow> room_state" where
  "bumpDeaths i rs =
     (case map_of (leaderboard rs) i of
        None \<Rightarrow> rs
      | Some st \<Rightarrow> rs\<lparr>leaderboard :=
          AList.update i (st\<lparr>deaths := deaths st + 1\<rparr>) (leaderboard rs)\<rparr>)"

text \<open>
  The part of the handler after the last validation. \<open>s\<close> is the state after
  \<^verbatim>\<open>getRoomGameState\<close>, \<open>rs\<close> the room state it returned. The attacker's and the
  target's statistics may be one object (a player reporting a hit on itself); the
  sequential updates below read the entry again, as the shared reference does.
\<close>

definition applyDamage ::
  "int \<Rightarrow> sid \<Rightarrow> damage_data \<Rightarrow> player \<Rightarrow> player \<Rightarrow> room_state \<Rightarrow> game_state
     \<Rightarrow> game_state \<times> emit list" where
  "applyDamage now socket data attackingPlayer targetPlayer rs s =
     (let targetId = targetPlayerId data;
          r = room attackingPlayer;
          monster = (collisionOr [] (collisionType data) = ''monster'');
          finalDamage = finalDamageOf data attackingPlayer targetPlayer;
          newHealth = js_max (Fin 0) (js_sub (health targetPlayer) finalDamage);
          s1 = putPlayer targetId (targetPlayer\<lparr>health := newHealth\<rparr>) s;
          rs1 = (if \<not> monster then bumpDamageDealt socket finalDamage rs else rs);
          e1 = (ToRoom r, PlayerDamaged targetId newHealth finalDamage
                  (collisionOr ''normal'' (collisionType data))
                  (if monster then ''monster'' else socket))
      in if js_le newHealth (Fin 0)
         then (let rs2 = bumpDeaths targetId (bumpKills socket rs1);
                   respawnTime = now + respawnDuration;
                   rs3 = rs2\<lparr>activePlayers := set_delete targetId (activePlayers rs2),
                             respawningPlayers :=
                               AList.update targetId respawnTime (respawningPlayers rs2)\<rparr>
               in (putRoomState r rs3 s1,
                   [e1, (ToRoom r, PlayerDestroyed targetId respawnTime socket)]))
         else (putRoomState r rs1 s1, [e1]))"

text \<open>
  The handler reads \<^verbatim>\<open>data.targetPlayerId\<close> first: an event that arrives without a
  payload (\<open>None\<close>) throws there. The damage is refused when it is \<^verbatim>\<open>undefined\<close> or
  compares below 0, and in no other case.
\<close>

definition playerDamaged :: "int \<Rightarrow> sid \<Rightarrow> damage_data option \<Rightarrow> game_state \<Rightarrow> outcome" where
  "playerDamaged now socket payload s =
     (case payload of
        None \<Rightarrow> Inl TypeError
      | Some data \<Rightarrow>
     (case players s socket of
        None \<Rightarrow> Inr (s, [])
      | Some attackingPlayer \<Rightarrow>
     (case players s (targetPlayerId data) of
        None \<Rightarrow> Inr (s, [])
      | Some targetPlayer \<Rightarrow>
          if damage data = Undefined
             \<or> (case toNumber (damage data) of None \<Rightarrow> False | Some d \<Rightarrow> d < 0)
          then Inr (s, [])
          else if room attackingPlayer \<noteq> room targetPlayer then Inr (s, [])
          else (case getRoomGameState (room attackingPlayer) s of (s1, rs) \<Rightarrow>
                  if phase rs \<noteq> Playing then Inr (s1, [])
                  else if invulnerableUntil attackingPlayer \<noteq> 0
                          \<and> now < invulnerableUntil attackingPlayer then Inr (s1, [])
                  else if invulnerableUntil targetPlayer \<noteq> 0
                          \<and> now < invulnerableUntil targetPlayer then Inr (s1, [])
                  else if (case shieldUntil targetPlayer of
                             None \<Rightarrow> False | Some t \<Rightarrow> t \<noteq> 0 \<and> now < t) then Inr (s1, [])
                  else Inr (applyDamage now socket data attackingPlayer targetPlayer rs s1)))))"

subsection \<open>Spawn positions\<close>

definition spawnPoints :: "position list" where
  "spawnPoints =
     [(-80, 1, -60), (80, 1, -60), (-80, 1, 60), (80, 1, 60),
      (0, 1, -90), (0, 1, 90), (-110, 1, 0), (110, 1, 0)]"

definition getRandomSpawnPosition :: "rat \<times> rat \<times> rat \<Rightarrow> position" where
  "getRandomSpawnPosition r =
     (case r of (r1, r2, r3) \<Rightarrow>
        (case spawnPoints ! nat \<lfloor>r1 * of_nat (length spawnPoints)\<rfloor> of (x, y, z) \<Rightarrow>
           (let variation = 5
            in (x + (r2 * variation * 2 - variation), y,
                z + (r3 * variation * 2 - variation)))))"

definition getRandomPowerupDropPosition :: "rat \<times> rat \<Rightarrow> position" where
  "getRandomPowerupDropPosition r =
     (case r of (rx, rz) \<Rightarrow>
        (let margin = 20
         in ((rx - 1 / 2) * (160 - margin * 2), 25, (rz - 1 / 2) * (120 - margin * 2))))"

subsection \<open>Leaderboard order\<close>

text \<open>
  The comparator of the three \<^verbatim>\<open>sort\<close> calls: kills descending, then damage dealt
  descending, then deaths ascending. \<^verbatim>\<open>Array.prototype.sort\<close> is stable; so is the
  insertion sort below.
\<close>

text \<open>
  \<^verbatim>\<open>!==\<close> on numbers: \<^verbatim>\<open>NaN\<close> differs from everything, itself included. A comparator
  result of \<^verbatim>\<open>NaN\<close> counts as 0 in \<^verbatim>\<open>sort\<close>.
\<close>

definition js_differ :: "jsnum \<Rightarrow> jsnum \<Rightarrow> bool" where
  "js_differ a b = (a = NaN \<or> b = NaN \<or> a \<noteq> b)"

definition compareStats :: "sid \<times> stats \<Rightarrow> sid \<times> stats \<Rightarrow> int" where
  "compareStats a b =
     (if kills (snd b) \<noteq> kills (snd a) then kills (snd b) - kills (snd a)
      else if js_differ (damageDealt (snd b)) (damageDealt (snd a))
           then (case js_sub (damageDealt (snd b)) (damageDealt (snd a)) of
                   Fin d \<Rightarrow> d | NaN \<Rightarrow> 0)
      else deaths (snd a) - deaths (snd b))"

fun insertSorted :: "sid \<times> stats \<Rightarrow> (sid \<times> stats) list \<Rightarrow> (sid \<times> stats) list" where
  "insertSorted a [] = [a]"
| "insertSorted a (b # bs) =
     (if compareStats a b \<le> 0 then a # b # bs else b # insertSorted a bs)"

definition sortedLeaderboard :: "room_state \<Rightarrow> (sid \<times> stats) list" where
  "sortedLeaderboard rs = foldr insertSorted (leaderboard rs) []"

definition totalKills :: "(sid \<times> stats) list \<Rightarrow> int" where
  "totalKills l = foldl (\<lambda>sum pl. sum + kills (snd pl)) 0 l"

definition totalDamage :: "(sid \<times> stats) list \<Rightarrow> jsnum" where
  "totalDamage l = foldl (\<lambda>sum pl. js_add sum (damageDealt (snd pl))) (Fin 0) l"

subsection \<open>Rounds\<close>

text \<open>The body of \<^verbatim>\<open>room.forEach\<close> in \<^verbatim>\<open>startRound\<close>.\<close>

definition resetPlayer ::
  "int \<Rightarrow> rng \<Rightarrow> (sid \<rightharpoonup> player) \<times> room_state \<Rightarrow> sid \<Rightarrow> (sid \<rightharpoonup> player) \<times> room_state" where
  "resetPlayer now orc acc playerId =
     (case acc of (ps, rs) \<Rightarrow>
        (case ps playerId of
           None \<Rightarrow> (ps, rs)
         | Some p \<Rightarrow>
             (let p1 = p\<lparr>health := Fin (maxHealth (vehicle p)),
                         position := getRandomSpawnPosition (spawnRnd orc playerId),
                         invulnerableUntil := now + max spawnInvulnerableMs entryDescentMs\<rparr>;
                  rs1 = rs\<lparr>activePlayers := set_add playerId (activePlayers rs)\<rparr>;
                  rs2 = (if map_of (leaderboard rs1) playerId = None
                         then rs1\<lparr>leaderboard := AList.update playerId
                                \<lparr>kills = 0, deaths = 0, damageDealt = Fin 0,
                                 playerName = (if name p = []
                                               then ''Player '' @ drop (length playerId - 4) playerId
                                               else name p)\<rparr>
                                (leaderboard rs1)\<rparr>
                         else rs1)
              in (ps(playerId \<mapsto> p1), rs2))))"

text \<open>
  The payload of \<^verbatim>\<open>roundStarted\<close> reads \<^verbatim>\<open>player.position\<close> without a null check:
  \<open>None\<close> when some listed id has no player record.
\<close>

definition playerViews :: "(sid \<rightharpoonup> player) \<Rightarrow> sid list \<Rightarrow> player_view list option" where
  "playerViews ps ids =
     those (map (\<lambda>i. map_option (\<lambda>p. (i, position p, health p, vehicleIdOf p)) (ps i)) ids)"

text \<open>
  \<^verbatim>\<open>startRound\<close> calls \<^verbatim>\<open>room.forEach\<close> on the result of \<^verbatim>\<open>gameState.rooms.get(roomId)\<close>
  without a null check: when the room has no membership list the call throws.
\<close>

definition startRound :: "int \<Rightarrow> rng \<Rightarrow> room_id \<Rightarrow> game_state \<Rightarrow> outcome" where
  "startRound now orc roomId s =
     (case getRoomGameState (Some roomId) s of (s1, rs) \<Rightarrow>
        (let rs1 = rs\<lparr>phase := Playing, roundStartTime := Some now,
                       roundEndTime := Some (now + roundDuration),
                       activePlayers := [], respawningPlayers := []\<rparr>
         in case rooms s1 roomId of
              None \<Rightarrow> Inl TypeError
            | Some members \<Rightarrow>
                (case foldl (resetPlayer now orc) (players s1, rs1) members of (ps, rs2) \<Rightarrow>
                   (case playerViews ps (activePlayers rs2) of
                      None \<Rightarrow> Inl TypeError
                    | Some views \<Rightarrow>
                        Inr (putRoomState (Some roomId) rs2 (s1\<lparr>players := ps\<rparr>),
                             [(ToRoom (Some roomId), RoundStarted (roundEndTime rs2) views)])))))"

definition endRound :: "int \<Rightarrow> room_id \<Rightarrow> game_state \<Rightarrow> game_state \<times> emit list" where
  "endRound now roomId s =
     (case getRoomGameState (Some roomId) s of (s1, rs) \<Rightarrow>
        (let rs1 = rs\<lparr>phase := RoundEnd\<rparr>;
             sorted = sortedLeaderboard rs1;
             nextRoundStartTime = now + 20000;
             s2 = putRoomState (Some roomId) rs1 s1
         in (s2\<lparr>timers := timers s2 @ [(now + 20000, roomId)]\<rparr>,
             [(ToRoom (Some roomId),
               RoundEnded sorted (totalKills sorted) (totalDamage sorted)
                 (Some nextRoundStartTime))])))"

text \<open>
  The one-shot callback \<^verbatim>\<open>() => startRound(roomId)\<close> of \<^verbatim>\<open>endRound\<close>: the oldest
  pending timer runs once its delay has passed.
\<close>

definition fireTimer :: "int \<Rightarrow> rng \<Rightarrow> game_state \<Rightarrow> outcome" where
  "fireTimer now orc s =
     (case timers s of
        [] \<Rightarrow> Inr (s, [])
      | (due, roomId) # rest \<Rightarrow>
          if due \<le> now then startRound now orc roomId (s\<lparr>timers := rest\<rparr>)
          else Inr (s, []))"

definition respawnPlayer :: "int \<Rightarrow> rng \<Rightarrow> room_id \<Rightarrow> sid \<Rightarrow> game_state \<Rightarrow> game_state \<times> emit list" where
  "respawnPlayer now orc roomId playerId s =
     (case getRoomGameState (Some roomId) s of (s1, rs) \<Rightarrow>
        (case players s1 playerId of
           None \<Rightarrow> (s1, [])
         | Some p \<Rightarrow>
             if map_of (respawningPlayers rs) playerId = None then (s1, [])
             else (let p1 = p\<lparr>health := Fin (maxHealth (vehicle p)),
                              position := getRandomSpawnPosition (spawnRnd orc playerId),
                              invulnerableUntil :=
                                now + max spawnInvulnerableMs respawnDescentMs\<rparr>;
                       rs1 = rs\<lparr>respawningPlayers := AList.delete playerId (respawningPlayers rs),
                                activePlayers := set_add playerId (activePlayers rs)\<rparr>
                   in (putRoomState (Some roomId) rs1 (putPlayer playerId p1 s1),
                       [(ToRoom (Some roomId),
                         PlayerRespawned playerId (position p1) (health p1) (vehicleIdOf p1))]))))"


subsection \<open>Powerup drops\<close>

definition powerupTypes :: "powerup_type list" where
  "powerupTypes = [HealthPowerup, HealthPowerup, HealthPowerup, ShieldPowerup]"

definition dropPowerup :: "int \<Rightarrow> rng \<Rightarrow> room_id \<Rightarrow> game_state \<Rightarrow> game_state \<times> emit list" where
  "dropPowerup now orc roomId s =
     (case getRoomGameState (Some roomId) s of (s1, rs) \<Rightarrow>
        (let playerCount = length (activePlayers rs)
         in if playerCount < 2 then (s1, [])
            else (case dropRnd orc roomId of (rt, rx, rz) \<Rightarrow>
                    (let powerupType = powerupTypes ! nat \<lfloor>rt * of_nat (length powerupTypes)\<rfloor>;
                         powerupId = newPowerupId orc roomId;
                         pos = getRandomPowerupDropPosition (rx, rz);
                         pu = \<lparr>powerup_id = powerupId, ptype = powerupType, pposition = pos,
                               dropTime = now, collected = False, landTime = now + 3000,
                               despawnTime = now + 45000\<rparr>;
                         rs1 = rs\<lparr>powerups := AList.update powerupId pu (powerups rs),
                                  lastPowerupDrop := now\<rparr>
                     in (putRoomState (Some roomId) rs1 s1,
                         [(ToRoom (Some roomId),
                           PowerupDropped powerupId powerupType pos (landTime pu))])))))"

definition getPowerupDropInterval :: "int \<Rightarrow> int" where
  "getPowerupDropInterval playerCount =
     (let baseInterval = 30000; reductionPerPlayer = 2500; minInterval = 15000
      in max minInterval (baseInterval - (playerCount - 2) * reductionPerPlayer))"

definition expired :: "int \<Rightarrow> powerup \<Rightarrow> bool" where
  "expired now pu = (now > despawnTime pu \<or> collected pu)"

definition managePowerupDrops :: "int \<Rightarrow> rng \<Rightarrow> room_id \<Rightarrow> game_state \<Rightarrow> game_state \<times> emit list" where
  "managePowerupDrops now orc roomId s =
     (case getRoomGameState (Some roomId) s of (s1, rs) \<Rightarrow>
        (let playerCount = length (activePlayers rs)
         in if phase rs \<noteq> Playing \<or> playerCount < 2 then (s1, [])
            else (let dropInterval = getPowerupDropInterval (int playerCount);
                      timeSinceLastDrop = now - lastPowerupDrop rs
                  in case (if timeSinceLastDrop \<ge> dropInterval
                           then dropPowerup now orc roomId s1 else (s1, [])) of
                       (s2, em) \<Rightarrow>
                         (case getRoomGameState (Some roomId) s2 of (s3, rs3) \<Rightarrow>
                            (putRoomState (Some roomId)
                               (rs3\<lparr>powerups := filter (\<lambda>kv. \<not> expired now (snd kv)) (powerups rs3)\<rparr>) s3,
                             em @ map (\<lambda>kv. (ToRoom (Some roomId), PowerupRemoved (fst kv)))
                                    (filter (\<lambda>kv. expired now (snd kv)) (powerups rs3)))))))"

subsection \<open>The tick\<close>

text \<open>
  The respawn loop visits the entries of \<^verbatim>\<open>respawningPlayers\<close> as they are when the
  loop starts; a visit deletes at most the entry it is at.
\<close>

fun respawnDue :: "int \<Rightarrow> rng \<Rightarrow> room_id \<Rightarrow> (sid \<times> int) list \<Rightarrow> game_state \<Rightarrow> game_state \<times> emit list" where
  "respawnDue now orc roomId [] s = (s, [])"
| "respawnDue now orc roomId ((playerId, respawnTime) # rest) s =
     (case (if now \<ge> respawnTime then respawnPlayer now orc roomId playerId s else (s, [])) of
        (s1, em1) \<Rightarrow>
          (case respawnDue now orc roomId rest s1 of (s2, em2) \<Rightarrow> (s2, em1 @ em2)))"

text \<open>\<^verbatim>\<open>now - null\<close> is \<^verbatim>\<open>now - 0\<close>.\<close>

definition orZero :: "int option \<Rightarrow> int" where
  "orZero t = (case t of None \<Rightarrow> 0 | Some v \<Rightarrow> v)"

text \<open>
  The callback of \<^verbatim>\<open>gameState.gameStates.forEach\<close> in \<^verbatim>\<open>updateGameStates\<close>, for
  the entry under \<open>key\<close>; a key without an entry is not visited.
\<close>

definition updateRoom :: "int \<Rightarrow> rng \<Rightarrow> room_id option \<Rightarrow> game_state \<Rightarrow> outcome" where
  "updateRoom now orc key s =
     (case key of
        None \<Rightarrow> Inr (s, [])
      | Some roomId \<Rightarrow>
     (case rooms s roomId of
        None \<Rightarrow> Inr (s, [])
      | Some members \<Rightarrow>
     (case gameStates s key of
        None \<Rightarrow> Inr (s, [])
      | Some roomState \<Rightarrow>
          (case (case phase roomState of
                   Waiting \<Rightarrow>
                     if now - orZero (waitingStartTime roomState) \<ge> waitingDuration
                     then startRound now orc roomId s else Inr (s, [])
                 | Playing \<Rightarrow>
                     if now - orZero (roundStartTime roomState) \<ge> roundDuration
                     then Inr (endRound now roomId s) else Inr (s, [])
                 | RoundEnd \<Rightarrow> Inr (s, [])) of
             Inl e \<Rightarrow> Inl e
           | Inr (s1, em1) \<Rightarrow>
               (case respawnDue now orc roomId
                       (case gameStates s1 key of None \<Rightarrow> [] | Some r1 \<Rightarrow> respawningPlayers r1) s1 of
                  (s2, em2) \<Rightarrow>
                    (case managePowerupDrops now orc roomId s2 of
                       (s3, em3) \<Rightarrow> Inr (s3, em1 @ em2 @ em3)))))))"

text \<open>
  \<^verbatim>\<open>updateGameStates\<close>: the callback for every key of \<^verbatim>\<open>gameStates\<close>, in the map's
  insertion order, which the HOL map does not record and the caller supplies.
\<close>

fun updateGameStates :: "int \<Rightarrow> rng \<Rightarrow> room_id option list \<Rightarrow> game_state \<Rightarrow> outcome" where
  "updateGameStates now orc [] s = Inr (s, [])"
| "updateGameStates now orc (key # rest) s =
     (case updateRoom now orc key s of
        Inl e \<Rightarrow> Inl e
      | Inr (s1, em1) \<Rightarrow>
          (case updateGameStates now orc rest s1 of
             Inl e \<Rightarrow> Inl e
           | Inr (s2, em2) \<Rightarrow> Inr (s2, em1 @ em2)))"

subsection \<open>Connection, movement, vehicles\<close>

definition balanced :: vehicle_config where
  "balanced = \<lparr>vid = ''balanced'', damageDealtMultiplier = 1, damageTakenMultiplier = 1,
               maxHealth = 100\<rparr>"

definition sport :: vehicle_config where
  "sport = \<lparr>vid = ''sport'', damageDealtMultiplier = 95 / 100,
            damageTakenMultiplier = 12 / 10, maxHealth = 80\<rparr>"

definition tank :: vehicle_config where
  "tank = \<lparr>vid = ''tank'', damageDealtMultiplier = 125 / 100,
           damageTakenMultiplier = 8 / 10, maxHealth = 130\<rparr>"

definition presets :: "string \<Rightarrow> vehicle_config" where
  "presets i = (if i = ''sport'' then sport else if i = ''tank'' then tank else balanced)"

definition connection :: "int \<Rightarrow> rng \<Rightarrow> sid \<Rightarrow> game_state \<Rightarrow> game_state \<times> emit list" where
  "connection now orc socket s =
     (putPlayer socket
        \<lparr>player_id = socket, name = ''Player_'' @ take 6 socket,
         position = getRandomSpawnPosition (joinRnd orc), rotation = Some 0, health = Fin 100,
         vehicle = balanced, room = None, connectedAt = now, invulnerableUntil = 0,
         shieldUntil = None\<rparr> s,
      [(ToSocket socket, GameStateMsg socket)])"

text \<open>
  \<^verbatim>\<open>data.position && data.rotation !== undefined\<close>: the position is a point or missing,
  the rotation is missing (\<open>None\<close>), \<^verbatim>\<open>null\<close> (\<open>Some None\<close>) or a number.
\<close>

definition playerMove ::
  "sid \<Rightarrow> position option \<Rightarrow> rat option option \<Rightarrow> game_state \<Rightarrow> game_state \<times> emit list" where
  "playerMove socket pos rot s =
     (case players s socket of
        None \<Rightarrow> (s, [])
      | Some p \<Rightarrow>
          (case (pos, rot) of
             (Some po, Some ro) \<Rightarrow>
               (putPlayer socket (p\<lparr>position := po, rotation := ro\<rparr>) s,
                (case roomOf p of
                   None \<Rightarrow> []
                 | Some r \<Rightarrow> [(ToOthers socket (Some r), PlayerMoved socket po ro)]))
           | _ \<Rightarrow> (s, [])))"

definition vehicleSelected :: "sid \<Rightarrow> string option \<Rightarrow> game_state \<Rightarrow> game_state \<times> emit list" where
  "vehicleSelected socket vehicleId s =
     (case players s socket of
        None \<Rightarrow> (s, [])
      | Some p \<Rightarrow>
          (let i = (case vehicleId of
                      None \<Rightarrow> ''balanced''
                    | Some v \<Rightarrow> if v \<in> {''sport'', ''balanced'', ''tank''} then v else ''balanced'');
               p1 = p\<lparr>vehicle := presets i\<rparr>;
               p2 = p1\<lparr>health := js_min (health p1) (Fin (maxHealth (vehicle p1)))\<rparr>
           in (putPlayer socket p2 s,
               (case roomOf p2 of
                  None \<Rightarrow> []
                | Some r \<Rightarrow> [(ToRoom (Some r), PlayerVehicleChanged socket i)])
               @ [(ToSocket socket, PlayerSpawn (position p2) (health p2) 0)])))"

definition playerLanded :: "int \<Rightarrow> sid \<Rightarrow> game_state \<Rightarrow> game_state \<times> emit list" where
  "playerLanded now socket s =
     (case players s socket of
        None \<Rightarrow> (s, [])
      | Some p \<Rightarrow>
          (case roomOf p of
             None \<Rightarrow> (s, [])
           | Some r \<Rightarrow>
               (putPlayer socket (p\<lparr>invulnerableUntil := now + spawnInvulnerableMs\<rparr>) s,
                [(ToSocket socket, PlayerSpawn (position p) (health p) spawnInvulnerableMs)])))"


subsection \<open>Joining a room\<close>

definition generateBoostPads :: "room_id \<Rightarrow> boost_pad list" where
  "generateBoostPads roomId =
     [(''boost_'' @ roomId @ ''_0'', 60, 40, 5 / 10),
      (''boost_'' @ roomId @ ''_1'', -50, -70, 21 / 10)]"

definition getBoostPads :: "room_id \<Rightarrow> game_state \<Rightarrow> game_state \<times> boost_pad list" where
  "getBoostPads roomId s =
     (case boostPads s roomId of
        None \<Rightarrow> (s\<lparr>boostPads := (boostPads s)(roomId \<mapsto> generateBoostPads roomId)\<rparr>,
                 generateBoostPads roomId)
      | Some pads \<Rightarrow> (s, pads))"

text \<open>The entries of the \<^verbatim>\<open>roomJoined\<close> and of the late joiner's \<^verbatim>\<open>roundStarted\<close> payload.\<close>

definition roomView :: "(sid \<rightharpoonup> player) \<Rightarrow> sid \<Rightarrow> sid \<times> string \<times> position \<times> jsnum \<times> string" where
  "roomView ps i =
     (case ps i of
        None \<Rightarrow> (i, ''Unknown'', (0, 0, 0), Fin 100, ''balanced'')
      | Some p \<Rightarrow> (i, (if name p = [] then ''Unknown'' else name p), position p,
                   (if health p = Fin 0 \<or> health p = NaN then Fin 100 else health p),
                   vehicleIdOf p))"

definition lateView :: "(sid \<rightharpoonup> player) \<Rightarrow> sid \<Rightarrow> player_view" where
  "lateView ps i =
     (case ps i of
        None \<Rightarrow> (i, (0, 0, 0), Fin 100, ''balanced'')
      | Some p \<Rightarrow> (i, position p, health p, vehicleIdOf p))"

text \<open>
  Removing the socket from its current room mutates the list the map holds; when the
  current room is the room being joined, \<^verbatim>\<open>room\<close> is that same list, so the model reads
  the list again after the removal. The capacity check is made before the removal.
\<close>

definition leaveCurrentRoom :: "sid \<Rightarrow> player \<Rightarrow> (room_id \<rightharpoonup> sid list) \<Rightarrow> (room_id \<rightharpoonup> sid list)" where
  "leaveCurrentRoom socket p rms =
     (case roomOf p of
        None \<Rightarrow> rms
      | Some cur \<Rightarrow>
          (case rms cur of
             None \<Rightarrow> rms
           | Some currentRoom \<Rightarrow> rms(cur \<mapsto> remove1 socket currentRoom)))"

definition syncLateJoiner ::
  "sid \<Rightarrow> room_id \<Rightarrow> room_state \<Rightarrow> game_state \<Rightarrow> game_state \<times> emit list" where
  "syncLateJoiner socket roomId rs s =
     (case phase rs of
        Playing \<Rightarrow>
          (let rs1 = rs\<lparr>activePlayers := set_add socket (activePlayers rs)\<rparr>
           in (putRoomState (Some roomId) rs1 s,
               [(ToSocket socket,
                 RoundStarted (roundEndTime rs1) (map (lateView (players s)) (activePlayers rs1)))]))
      | Waiting \<Rightarrow>
          (s, [(ToSocket socket,
                WaitingPhaseStarted (orZero (waitingStartTime rs) + waitingDuration))])
      | RoundEnd \<Rightarrow>
          (let sorted = sortedLeaderboard rs
           in (s, [(ToSocket socket,
                    RoundEnded sorted (totalKills sorted) (totalDamage sorted) None)])))"

text \<open>
  \<^verbatim>\<open>joinRoom\<close> in three parts: entering (leave the current room, push to the new list,
  reposition, ensure a leaderboard entry), the round start when the joiner is the only
  member, and the announcements, which read the player and the room state as the round
  start left them.
\<close>

definition membersOf :: "game_state \<Rightarrow> room_id \<Rightarrow> sid list" where
  "membersOf s roomId = (case rooms s roomId of None \<Rightarrow> [] | Some l \<Rightarrow> l)"

definition enterRoom :: "int \<Rightarrow> rng \<Rightarrow> sid \<Rightarrow> room_id \<Rightarrow> player \<Rightarrow> game_state \<Rightarrow> game_state" where
  "enterRoom now orc socket roomId p s =
     (let rooms1 = leaveCurrentRoom socket p (rooms s);
          room1 = (case rooms1 roomId of None \<Rightarrow> [] | Some l \<Rightarrow> l) @ [socket];
          p1 = p\<lparr>room := Some roomId,
                  position := getRandomSpawnPosition (joinRnd orc),
                  invulnerableUntil := now + max spawnInvulnerableMs entryDescentMs\<rparr>;
          s1 = putPlayer socket p1 (s\<lparr>rooms := rooms1(roomId \<mapsto> room1)\<rparr>)
      in case getRoomGameState (Some roomId) s1 of (s2, rs) \<Rightarrow>
           putRoomState (Some roomId)
             (if map_of (leaderboard rs) socket = None
              then rs\<lparr>leaderboard := AList.update socket
                     \<lparr>kills = 0, deaths = 0, damageDealt = Fin 0,
                      playerName = displayName p1 socket\<rparr>
                     (leaderboard rs)\<rparr>
              else rs) s2)"

text \<open>
  \<^verbatim>\<open>player\<close> and \<^verbatim>\<open>roomState\<close> are references the handler holds since entering; the
  model reads both from the state, where \<open>enterRoom\<close> has put them.
\<close>

definition announceJoin :: "sid \<Rightarrow> room_id \<Rightarrow> game_state \<Rightarrow> game_state \<times> emit list" where
  "announceJoin socket roomId s =
     (case players s socket of
        None \<Rightarrow> (s, [])
      | Some p \<Rightarrow>
     (case gameStates s (Some roomId) of
        None \<Rightarrow> (s, [])
      | Some rs \<Rightarrow>
     (case getBoostPads roomId s of (s1, pads) \<Rightarrow>
     (case syncLateJoiner socket roomId rs s1 of (s2, em) \<Rightarrow>
        (s2,
         [(ToSocket socket,
           RoomJoined roomId (map (roomView (players s)) (membersOf s roomId))
             (phase rs) (roundEndTime rs)
             (case waitingStartTime rs of
                None \<Rightarrow> None
              | Some t \<Rightarrow> if t = 0 then None else Some (t + waitingDuration))
             pads),
          (ToSocket socket, PlayerSpawn (position p) (health p) spawnInvulnerableMs)]
         @ em @
         [(ToOthers socket (Some roomId),
           PlayerJoined socket (name p) (position p) (health p) (vehicleIdOf p))])))))"

definition joinRoom :: "int \<Rightarrow> rng \<Rightarrow> sid \<Rightarrow> string option \<Rightarrow> game_state \<Rightarrow> outcome" where
  "joinRoom now orc socket roomIdField s =
     (let roomId = (case roomIdField of
                      None \<Rightarrow> ''default''
                    | Some r \<Rightarrow> if r = [] then ''default'' else r)
      in if length (membersOf s roomId) < maxPlayersPerRoom
         then (case players s socket of
                 None \<Rightarrow> Inr (s, [])
               | Some p \<Rightarrow>
                   (let s1 = enterRoom now orc socket roomId p s;
                        em1 = [(ToOthers socket (Some roomId),
                                ChatMessage ''system'' ''System''
                                  (displayName p socket @ '' joined the arena'') now True)]
                    in case (if length (membersOf s1 roomId) = 1
                             then startRound now orc roomId s1 else Inr (s1, [])) of
                         Inl e \<Rightarrow> Inl e
                       | Inr (s2, em2) \<Rightarrow>
                           (case announceJoin socket roomId s2 of
                              (s3, em3) \<Rightarrow> Inr (s3, em1 @ em2 @ em3))))
         else Inr (s, [(ToSocket socket, RoomFull roomId)]))"

subsection \<open>Nickname and chat\<close>

definition setNickname :: "sid \<Rightarrow> string option \<Rightarrow> game_state \<Rightarrow> game_state \<times> emit list" where
  "setNickname socket nickname s =
     (case players s socket of
        None \<Rightarrow> (s, [])
      | Some p \<Rightarrow>
          (case nickname of
             None \<Rightarrow> (s, [])
           | Some n \<Rightarrow>
               if n = [] then (s, [])
               else (let sanitizedNickname = take 16 (js_trim n);
                         s1 = putPlayer socket (p\<lparr>name := sanitizedNickname\<rparr>) s
                     in case roomOf p of
                          None \<Rightarrow> (s1, [])
                        | Some r \<Rightarrow>
                            (case getRoomGameState (Some r) s1 of (s2, rs) \<Rightarrow>
                               (case map_of (leaderboard rs) socket of
                                  None \<Rightarrow> (s2, [])
                                | Some entry \<Rightarrow>
                                    (putRoomState (Some r)
                                       (rs\<lparr>leaderboard := AList.update socket
                                              (entry\<lparr>playerName := sanitizedNickname\<rparr>)
                                              (leaderboard rs)\<rparr>) s2, []))))))"

text \<open>
  Two listeners are registered for \<^verbatim>\<open>chatMessage\<close> on every socket: the first at the
  comment "Handle chat messages", the second at "Handle chat messages (for future use)".
  The event emitter calls both, in the order of registration.
\<close>

definition chatMessageFirst :: "int \<Rightarrow> sid \<Rightarrow> string option \<Rightarrow> game_state \<Rightarrow> emit list" where
  "chatMessageFirst now socket message s =
     (case players s socket of
        None \<Rightarrow> []
      | Some p \<Rightarrow>
          (case message of
             None \<Rightarrow> []
           | Some m \<Rightarrow>
               if m = [] then []
               else (let sanitizedMessage = take 200 (js_trim m);
                         playerName = displayName p socket
                     in case roomOf p of
                          None \<Rightarrow> []
                        | Some r \<Rightarrow>
                            [(ToOthers socket (Some r),
                              ChatMessage socket playerName sanitizedMessage now False)])))"

definition chatMessageSecond :: "int \<Rightarrow> sid \<Rightarrow> string option \<Rightarrow> game_state \<Rightarrow> emit list" where
  "chatMessageSecond now socket message s =
     (case players s socket of
        None \<Rightarrow> []
      | Some p \<Rightarrow>
          (case message of
             None \<Rightarrow> []
           | Some m \<Rightarrow>
               if m = [] then []
               else if length m \<le> 200
               then (case roomOf p of
                       None \<Rightarrow> []
                     | Some r \<Rightarrow>
                         [(ToRoom (Some r), ChatMessage socket (name p) m now False)])
               else []))"

definition chatMessage :: "int \<Rightarrow> sid \<Rightarrow> string option \<Rightarrow> game_state \<Rightarrow> game_state \<times> emit list" where
  "chatMessage now socket message s =
     (s, chatMessageFirst now socket message s @ chatMessageSecond now socket message s)"


subsection \<open>Collecting a powerup\<close>

definition collectPowerup :: "int \<Rightarrow> sid \<Rightarrow> string \<Rightarrow> game_state \<Rightarrow> game_state \<times> emit list" where
  "collectPowerup now socket powerupId s =
     (case players s socket of
        None \<Rightarrow> (s, [])
      | Some p \<Rightarrow>
     (case roomOf p of
        None \<Rightarrow> (s, [])
      | Some r \<Rightarrow>
     (case getRoomGameState (Some r) s of (s1, rs) \<Rightarrow>
     (case map_of (powerups rs) powerupId of
        None \<Rightarrow> (s1, [])
      | Some pu \<Rightarrow>
          if collected pu then (s1, [])
          else (case (case ptype pu of
                        HealthPowerup \<Rightarrow>
                          (let maxH = (if maxHealth (vehicle p) = 0 then 100
                                       else maxHealth (vehicle p));
                               healthRestore = 40;
                               oldHealth = health p;
                               p1 = p\<lparr>health := js_min (Fin maxH)
                                                  (js_add (health p) (Fin healthRestore))\<rparr>;
                               actualRestore = js_sub (health p1) oldHealth
                           in (p1, [(ToRoom (Some r),
                                     PlayerDamaged socket (health p1) (js_neg actualRestore)
                                       ''heal'' socket)]))
                      | ShieldPowerup \<Rightarrow>
                          (let shieldDuration = 10000;
                               until = now + shieldDuration
                           in (p\<lparr>shieldUntil := Some until\<rparr>,
                               [(ToSocket socket, ShieldActivated shieldDuration until),
                                (ToOthers socket (Some r), PlayerShielded socket until)]))) of
                  (p2, em) \<Rightarrow>
                    (putRoomState (Some r)
                       (rs\<lparr>powerups := AList.delete powerupId (powerups rs)\<rparr>)
                       (putPlayer socket p2 s1),
                     em @ [(ToRoom (Some r),
                            PowerupCollected powerupId socket (ptype pu))]))))))"

subsection \<open>Disconnecting\<close>

definition disconnect :: "int \<Rightarrow> sid \<Rightarrow> game_state \<Rightarrow> game_state \<times> emit list" where
  "disconnect now socket s =
     (case (case players s socket of
              None \<Rightarrow> (s, [])
            | Some p \<Rightarrow>
                (case roomOf p of
                   None \<Rightarrow> (s, [])
                 | Some r \<Rightarrow>
                     (let rooms1 =
                            (case rooms s r of
                               None \<Rightarrow> rooms s
                             | Some members \<Rightarrow>
                                 if socket \<in> set members
                                 then (let members1 = remove1 socket members
                                       in if length members1 = 0 then (rooms s)(r := None)
                                          else (rooms s)(r \<mapsto> members1))
                                 else rooms s)
                      in (s\<lparr>rooms := rooms1\<rparr>,
                          [(ToOthers socket (Some r),
                            ChatMessage ''system'' ''System''
                              (displayName p socket @ '' left the arena'') now True),
                           (ToOthers socket (Some r), PlayerLeft socket)])))) of
        (s1, em) \<Rightarrow> (s1\<lparr>players := (players s1)(socket := None)\<rparr>, em))"

subsection \<open>Standings, boot\<close>

definition requestStandings :: "sid \<Rightarrow> game_state \<Rightarrow> game_state \<times> emit list" where
  "requestStandings socket s =
     (case players s socket of
        None \<Rightarrow> (s, [])
      | Some p \<Rightarrow>
          (case roomOf p of
             None \<Rightarrow> (s, [])
           | Some roomId \<Rightarrow>
               (case getRoomGameState (Some roomId) s of (s1, rs) \<Rightarrow>
                  (s1, [(ToSocket socket, Standings (sortedLeaderboard rs) (phase rs))]))))"

definition emptyState :: game_state where
  "emptyState = \<lparr>players = Map.empty, rooms = Map.empty, gameStates = Map.empty,
                  boostPads = Map.empty, timers = []\<rparr>"

text \<open>The callback of \<^verbatim>\<open>server.listen\<close>.\<close>

definition boot :: "game_state \<Rightarrow> game_state" where
  "boot s =
     initializeRoomGameState (Some ''default'')
       (if rooms s ''default'' = None then s\<lparr>rooms := (rooms s)(''default'' \<mapsto> [])\<rparr> else s)"

text \<open>The state in which the server starts to take events.\<close>

definition booted :: game_state where
  "booted = boot emptyState"

subsection \<open>Events\<close>

datatype event =
    Connection sid
  | PlayerMove sid "position option" "rat option option"
  | VehicleSelected sid "string option"
  | PlayerDamagedEv sid "damage_data option"
  | PlayerLanded sid
  | JoinRoom sid "string option"
  | SetNickname sid "string option"
  | ChatMessageEv sid "string option"
  | CollectPowerup sid string
  | Disconnect sid
  | RequestStandings sid
  | Tick "room_id option list"
  | Timer

fun step :: "int \<Rightarrow> rng \<Rightarrow> event \<Rightarrow> game_state \<Rightarrow> outcome" where
  "step now orc (Connection i) s = Inr (connection now orc i s)"
| "step now orc (PlayerMove i pos rot) s = Inr (playerMove i pos rot s)"
| "step now orc (VehicleSelected i v) s = Inr (vehicleSelected i v s)"
| "step now orc (PlayerDamagedEv i d) s = playerDamaged now i d s"
| "step now orc (PlayerLanded i) s = Inr (playerLanded now i s)"
| "step now orc (JoinRoom i r) s = joinRoom now orc i r s"
| "step now orc (SetNickname i n) s = Inr (setNickname i n s)"
| "step now orc (ChatMessageEv i m) s = Inr (chatMessage now i m s)"
| "step now orc (CollectPowerup i pu) s = Inr (collectPowerup now i pu s)"
| "step now orc (Disconnect i) s = Inr (disconnect now i s)"
| "step now orc (RequestStandings i) s = Inr (requestStandings i s)"
| "step now orc (Tick keys) s = updateGameStates now orc keys s"
| "step now orc Timer s = fireTimer now orc s"

subsection \<open>Delivery\<close>

text \<open>
  The sockets a broadcast reaches. \<^verbatim>\<open>socket.join\<close> and \<^verbatim>\<open>socket.leave\<close> are called
  exactly where the handlers push to and splice from the membership list, so the members
  of the transport's room are the members of the list.
\<close>

definition recipients :: "game_state \<Rightarrow> dest \<Rightarrow> sid list" where
  "recipients s d =
     (case d of
        ToSocket i \<Rightarrow> [i]
      | ToRoom None \<Rightarrow> []
      | ToRoom (Some r) \<Rightarrow> (case rooms s r of None \<Rightarrow> [] | Some members \<Rightarrow> members)
      | ToOthers i None \<Rightarrow> []
      | ToOthers i (Some r) \<Rightarrow>
          (case rooms s r of None \<Rightarrow> [] | Some members \<Rightarrow> filter (\<lambda>j. j \<noteq> i) members))"

text \<open>The messages socket \<open>i\<close> receives from a list of emissions, in order.\<close>

definition received :: "game_state \<Rightarrow> emit list \<Rightarrow> sid \<Rightarrow> msg list" where
  "received s em i = map snd (filter (\<lambda>e. i \<in> set (recipients s (fst e))) em)"


subsection \<open>Runs\<close>

text \<open>
  A run of the server: events in arrival order, each with the clock reading and the
  random draws of its handler. The first uncaught exception ends the run.
\<close>

fun run :: "(int \<times> rng \<times> event) list \<Rightarrow> game_state \<Rightarrow> error + game_state" where
  "run [] s = Inr s"
| "run (x # xs) s =
     (case x of (now, orc, e) \<Rightarrow>
        (case step now orc e s of
           Inl err \<Rightarrow> Inl err
         | Inr (s1, em) \<Rightarrow> run xs s1))"

subsection \<open>Properties of a damage event\<close>

text \<open>
  The validation failures of the damage handler, in the words of the specification:
  attacker or target record missing, damage field missing (\<^verbatim>\<open>undefined\<close>) or negative,
  attacker and target in different rooms, room phase not playing (a room without round
  state is not playing), attacker invulnerable, target invulnerable or shielded at
  \<open>now\<close>.
\<close>

definition shielded :: "int \<Rightarrow> player \<Rightarrow> bool" where
  "shielded now p = (case shieldUntil p of None \<Rightarrow> False | Some t \<Rightarrow> now < t)"

definition roomPlaying :: "game_state \<Rightarrow> room_id option \<Rightarrow> bool" where
  "roomPlaying s r = (case gameStates s r of None \<Rightarrow> False | Some rs \<Rightarrow> phase rs = Playing)"

definition validationFails :: "int \<Rightarrow> sid \<Rightarrow> damage_data \<Rightarrow> game_state \<Rightarrow> bool" where
  "validationFails now socket data s =
     (case players s socket of
        None \<Rightarrow> True
      | Some attacker \<Rightarrow>
          (case players s (targetPlayerId data) of
             None \<Rightarrow> True
           | Some target \<Rightarrow>
               damage data = Undefined
               \<or> (case toNumber (damage data) of None \<Rightarrow> False | Some d \<Rightarrow> d < 0)
               \<or> room attacker \<noteq> room target
               \<or> \<not> roomPlaying s (room attacker)
               \<or> now < invulnerableUntil attacker
               \<or> now < invulnerableUntil target
               \<or> shielded now target))"

subsection \<open>Example data\<close>

definition rng0 :: rng where
  "rng0 = \<lparr>spawnRnd = (\<lambda>i. (0, 0, 0)), joinRnd = (0, 0, 0),
           dropRnd = (\<lambda>r. (0, 0, 0)), newPowerupId = (\<lambda>r. ''powerup_x_0'')\<rparr>"

definition newcomer :: "sid \<Rightarrow> player" where
  "newcomer i =
     \<lparr>player_id = i, name = ''Player_'' @ take 6 i, position = (-85, 1, -65),
      rotation = Some 0,
      health = Fin 100, vehicle = balanced, room = None, connectedAt = 0,
      invulnerableUntil = 0, shieldUntil = None\<rparr>"

text \<open>Two sockets have connected; neither has joined a room.\<close>

definition lobby :: game_state where
  "lobby = booted\<lparr>players := [''a'' \<mapsto> newcomer ''a'', ''b'' \<mapsto> newcomer ''b'']\<rparr>"

text \<open>Socket \<open>a\<close> is the only member of the room \<open>default\<close>.\<close>

definition solo :: game_state where
  "solo =
     emptyState
       \<lparr>players := [''a'' \<mapsto> (newcomer ''a'')\<lparr>room := Some ''default''\<rparr>],
        rooms := [''default'' \<mapsto> [''a'']],
        gameStates := [Some ''default'' \<mapsto> initialRoomState\<lparr>phase := Playing, activePlayers := [''a'']\<rparr>]\<rparr>"

text \<open>
  Room \<open>r1\<close> in its playing phase with members \<open>a\<close> (balanced) and \<open>b\<close> (tank, health 20),
  both active and on the leaderboard, no invulnerability pending, one health powerup on
  the ground.
\<close>

definition arenaRoom :: room_state where
  "arenaRoom =
     \<lparr>phase = Playing, roundStartTime = Some 1000, roundEndTime = Some 241000,
      waitingStartTime = None,
      leaderboard = [(''a'', \<lparr>kills = 0, deaths = 0, damageDealt = Fin 0, playerName = ''Player_a''\<rparr>),
                     (''b'', \<lparr>kills = 0, deaths = 0, damageDealt = Fin 0, playerName = ''Player_b''\<rparr>)],
      activePlayers = [''a'', ''b''], respawningPlayers = [],
      powerups = [(''pu1'', \<lparr>powerup_id = ''pu1'', ptype = HealthPowerup, pposition = (0, 25, 0),
                             dropTime = 1000, collected = False, landTime = 4000,
                             despawnTime = 46000\<rparr>)],
      lastPowerupDrop = 1000\<rparr>"

definition arena :: game_state where
  "arena =
     emptyState
       \<lparr>players := [''a'' \<mapsto> (newcomer ''a'')\<lparr>room := Some ''r1''\<rparr>,
                    ''b'' \<mapsto> (newcomer ''b'')\<lparr>room := Some ''r1'', vehicle := tank, health := Fin 20\<rparr>],
        rooms := [''r1'' \<mapsto> [''a'', ''b'']],
        gameStates := [Some ''r1'' \<mapsto> arenaRoom]\<rparr>"


subsection \<open>Observing a run from boot\<close>

definition errorAfter :: "(int \<times> rng \<times> event) list \<Rightarrow> error option" where
  "errorAfter evs = (case run evs booted of Inl e \<Rightarrow> Some e | Inr s \<Rightarrow> None)"

text \<open>
  What socket \<open>i\<close> receives from the event \<open>x\<close> handled after the run \<open>evs\<close>. The
  recipients are the members when the event arrives, which is right for events that do
  not change the membership.
\<close>

definition receivedAfter ::
  "(int \<times> rng \<times> event) list \<Rightarrow> int \<times> rng \<times> event \<Rightarrow> sid \<Rightarrow> error + msg list" where
  "receivedAfter evs x i =
     (case run evs booted of
        Inl e \<Rightarrow> Inl e
      | Inr s \<Rightarrow>
          (case x of (now, orc, e) \<Rightarrow>
             (case step now orc e s of
                Inl err \<Rightarrow> Inl err
              | Inr (s', em) \<Rightarrow> Inr (received s em i))))"

definition healthAfter :: "(int \<times> rng \<times> event) list \<Rightarrow> sid \<Rightarrow> error + jsnum option" where
  "healthAfter evs i =
     (case run evs booted of Inl e \<Rightarrow> Inl e | Inr s \<Rightarrow> Inr (map_option health (players s i)))"

text \<open>The phase of the round state under a key of \<^verbatim>\<open>gameStates\<close>, \<^verbatim>\<open>null\<close> included.\<close>

definition keyPhaseAfter :: "(int \<times> rng \<times> event) list \<Rightarrow> room_id option \<Rightarrow> error + phase option" where
  "keyPhaseAfter evs key =
     (case run evs booted of
        Inl e \<Rightarrow> Inl e
      | Inr s \<Rightarrow> Inr (map_option phase (gameStates s key)))"

definition membersAfter :: "(int \<times> rng \<times> event) list \<Rightarrow> room_id \<Rightarrow> error + sid list option" where
  "membersAfter evs r =
     (case run evs booted of Inl e \<Rightarrow> Inl e | Inr s \<Rightarrow> Inr (rooms s r))"

definition registeredAfter :: "(int \<times> rng \<times> event) list \<Rightarrow> sid \<Rightarrow> error + bool" where
  "registeredAfter evs i =
     (case run evs booted of Inl e \<Rightarrow> Inl e | Inr s \<Rightarrow> Inr (players s i \<noteq> None))"

definition activeAfter :: "(int \<times> rng \<times> event) list \<Rightarrow> room_id \<Rightarrow> error + sid list" where
  "activeAfter evs r =
     (case run evs booted of
        Inl e \<Rightarrow> Inl e
      | Inr s \<Rightarrow> Inr (case gameStates s (Some r) of None \<Rightarrow> [] | Some rs \<Rightarrow> activePlayers rs))"

definition respawningAfter :: "(int \<times> rng \<times> event) list \<Rightarrow> room_id \<Rightarrow> error + (sid \<times> int) list" where
  "respawningAfter evs r =
     (case run evs booted of
        Inl e \<Rightarrow> Inl e
      | Inr s \<Rightarrow> Inr (case gameStates s (Some r) of None \<Rightarrow> [] | Some rs \<Rightarrow> respawningPlayers rs))"

definition phaseAfter :: "(int \<times> rng \<times> event) list \<Rightarrow> room_id \<Rightarrow> error + phase option" where
  "phaseAfter evs r =
     (case run evs booted of
        Inl e \<Rightarrow> Inl e
      | Inr s \<Rightarrow> Inr (map_option phase (gameStates s (Some r))))"

subsection \<open>Recognising a powerup drop\<close>

definition isDrop :: "emit \<Rightarrow> bool" where
  "isDrop e = (case snd e of PowerupDropped i ty pos lt \<Rightarrow> True | _ \<Rightarrow> False)"

subsection \<open>Events with a numeric damage\<close>

text \<open>Every event but a damage event whose damage the operators read as \<^verbatim>\<open>NaN\<close>.\<close>

definition numericDamage :: "event \<Rightarrow> bool" where
  "numericDamage e =
     (case e of
        PlayerDamagedEv i (Some d) \<Rightarrow> damage d \<noteq> NonNumeric
      | _ \<Rightarrow> True)"

subsection \<open>The health bound\<close>

text \<open>
  A player record is in order when its health is a number between 0 and the maximum of
  its vehicle, and that maximum is not 0 (the health powerup reads
  \<^verbatim>\<open>maxHealth || 100\<close>).
\<close>

definition playerOk :: "player \<Rightarrow> bool" where
  "playerOk p =
     (case health p of
        NaN \<Rightarrow> False
      | Fin h \<Rightarrow> 0 \<le> h \<and> h \<le> maxHealth (vehicle p) \<and> maxHealth (vehicle p) \<noteq> 0)"

definition playersOk :: "(sid \<rightharpoonup> player) \<Rightarrow> bool" where
  "playersOk ps = (\<forall>i p. ps i = Some p \<longrightarrow> playerOk p)"

section \<open>Proofs\<close>

subsection \<open>Damage events\<close>



lemma collisionOr_monster: "(collisionOr [] c = ''monster'') = (c = Some ''monster'')"
  by (auto simp: collisionOr_def split: option.splits)

lemma damage_accepted:
  assumes "\<not> validationFails now socket data s" "0 \<le> now"
   "players s socket = Some a" "players s (targetPlayerId data) = Some t"
  shows "\<exists>rs. gameStates s (room a) = Some rs \<and> phase rs = Playing \<and> damage data \<noteq> Undefined
     \<and> playerDamaged now socket (Some data) s = Inr (applyDamage now socket data a t rs s)"
  using assms
  by (auto simp: validationFails_def playerDamaged_def roomPlaying_def shielded_def
        getRoomGameState_def Let_def
      split: option.splits if_splits prod.splits)

text \<open>
  What a rejected damage event leaves alone: it emits nothing and changes no player
  record, no membership list and no existing round state. The state after is the state
  before, or the state before with one fresh initial round state under a key that had
  none; when the attacker's room has a round state, nothing changes at all.
\<close>

lemma rejected_damage_changes_nothing_else:
  assumes "validationFails now socket data s" and "0 \<le> now"
    and "playerDamaged now socket (Some data) s = Inr (s', em)"
  shows "em = [] \<and> players s' = players s \<and> rooms s' = rooms s
         \<and> (\<forall>k rs. gameStates s k = Some rs \<longrightarrow> gameStates s' k = Some rs)
         \<and> (s' = s \<or> (\<exists>k. gameStates s k = None \<and> s' = initializeRoomGameState k s))"
  using assms
  by (auto simp: validationFails_def playerDamaged_def roomPlaying_def shielded_def
        getRoomGameState_def initializeRoomGameState_def initialRoomState_def Let_def
      split: option.splits if_splits prod.splits)

lemma rejected_damage_in_a_room_changes_nothing:
  assumes "validationFails now socket data s" and "0 \<le> now"
    and "players s socket = Some a" and "gameStates s (room a) \<noteq> None"
  shows "playerDamaged now socket (Some data) s = Inr (s, [])"
proof (cases "players s (targetPlayerId data)")
  case None
  with assms(3) show ?thesis by (simp add: playerDamaged_def)
next
  case (Some t)
  from assms(4) obtain rs where rs: "gameStates s (room a) = Some rs" by blast
  have g: "getRoomGameState (room a) s = (s, rs)" by (simp add: getRoomGameState_def rs)
  from assms(1) assms(3) Some rs have
    "damage data = Undefined
     \<or> (case toNumber (damage data) of None \<Rightarrow> False | Some d \<Rightarrow> d < 0)
     \<or> room a \<noteq> room t \<or> phase rs \<noteq> Playing
     \<or> now < invulnerableUntil a \<or> now < invulnerableUntil t \<or> shielded now t"
    by (simp add: validationFails_def roomPlaying_def)
  moreover have "now < invulnerableUntil a \<Longrightarrow> invulnerableUntil a \<noteq> 0"
    and "now < invulnerableUntil t \<Longrightarrow> invulnerableUntil t \<noteq> 0"
    using assms(2) by auto
  moreover have "shielded now t \<Longrightarrow>
      (case shieldUntil t of None \<Rightarrow> False | Some u \<Rightarrow> u \<noteq> 0 \<and> now < u)"
    using assms(2) by (auto simp: shielded_def split: option.splits)
  ultimately show ?thesis
    using assms(3) Some g by (auto simp: playerDamaged_def)
qed

text \<open>
  Claim C1 at a run. Two sockets connect and join no room; \<open>a\<close> reports damage on \<open>b\<close>.
  The event fails validation (no room is playing), yet \<^verbatim>\<open>gameStates\<close> gains a round
  state under the key \<^verbatim>\<open>null\<close>: the handler calls \<^verbatim>\<open>getRoomGameState\<close> on
  \<^verbatim>\<open>attackingPlayer.room\<close> without the \<^verbatim>\<open>!player.room\<close> check that
  \<^verbatim>\<open>collectPowerup\<close>, \<^verbatim>\<open>playerLanded\<close> and \<^verbatim>\<open>requestStandings\<close> make first.
\<close>

theorem rejected_damage_creates_round_state:
  "keyPhaseAfter [(0, rng0, Connection ''a''), (0, rng0, Connection ''b'')] None = Inr None
   \<and> keyPhaseAfter [(0, rng0, Connection ''a''), (0, rng0, Connection ''b''),
                     (5, rng0, PlayerDamagedEv ''a''
                        (Some \<lparr>damage = Number 10, targetPlayerId = ''b'', collisionType = None\<rparr>))]
        None = Inr (Some Waiting)
   \<and> receivedAfter [(0, rng0, Connection ''a''), (0, rng0, Connection ''b'')]
        (5, rng0, PlayerDamagedEv ''a''
           (Some \<lparr>damage = Number 10, targetPlayerId = ''b'', collisionType = None\<rparr>)) ''b''
        = Inr []"
  by code_simp

text \<open>The state in which the event of that run arrives, and that it fails validation.\<close>

lemma lobby_reachable:
  "run [(0, rng0, Connection ''a''), (0, rng0, Connection ''b'')] booted = Inr lobby"
proof -
  have "players booted = Map.empty"
    by (simp add: booted_def boot_def emptyState_def initializeRoomGameState_def)
  then show ?thesis
    by (simp add: connection_def putPlayer_def lobby_def newcomer_def rng0_def
          getRandomSpawnPosition_def spawnPoints_def Let_def)
qed

lemma event_of_that_run_fails_validation:
  "validationFails 5 ''a'' \<lparr>damage = Number 10, targetPlayerId = ''b'', collisionType = None\<rparr> lobby"
  by (simp add: validationFails_def lobby_def booted_def boot_def emptyState_def newcomer_def
        initializeRoomGameState_def roomPlaying_def)

text \<open>
  A damage of \<^verbatim>\<open>null\<close> is not refused: it is applied as 0 and broadcast. An event
  without payload throws.
\<close>

lemma null_damage_is_applied:
  "\<exists>s'. playerDamaged 5000 ''a''
          (Some \<lparr>damage = Null, targetPlayerId = ''b'', collisionType = None\<rparr>) arena
        = Inr (s', [(ToRoom (Some ''r1''), PlayerDamaged ''b'' (Fin 20) (Fin 0) ''normal'' ''a'')])"
  by (simp add: playerDamaged_def arena_def arenaRoom_def emptyState_def newcomer_def
        getRoomGameState_def applyDamage_def finalDamageOf_def collisionOr_def balanced_def
        tank_def js_round_def bumpDamageDealt_def Let_def)

lemma damage_event_without_payload_throws:
  "playerDamaged now socket None s = Inl TypeError"
  by (simp add: playerDamaged_def)

text \<open>
  Claim C10. A valid damage event with collision type \<open>monster\<close> that brings the target's
  health to 0 increments the kills of the sending socket's leaderboard entry and the
  deaths of the target's entry, leaves the sender's \<open>damageDealt\<close> as it was, and the
  \<^verbatim>\<open>playerDamaged\<close> broadcast names \<open>monster\<close> as the attacker. Sender and target may be
  the same socket.
\<close>

theorem monster_kill_credited:
  assumes "\<not> validationFails now socket data s" and "0 \<le> now"
    and "collisionType data = Some ''monster''"
    and "players s socket = Some a" and "players s (targetPlayerId data) = Some t"
    and "health t = Fin h"
    and "h \<le> js_round (of_int (maxHealth (vehicle t)) * (20 / 100))"
    and "gameStates s (room a) = Some rs"
    and "map_of (leaderboard rs) socket = Some sa"
    and "map_of (leaderboard rs) (targetPlayerId data) = Some st"
  shows "\<exists>s' em rs' sa' st' dmg.
           playerDamaged now socket (Some data) s = Inr (s', em)
         \<and> gameStates s' (room a) = Some rs'
         \<and> map_of (leaderboard rs') socket = Some sa'
         \<and> kills sa' = kills sa + 1 \<and> damageDealt sa' = damageDealt sa
         \<and> map_of (leaderboard rs') (targetPlayerId data) = Some st'
         \<and> deaths st' = deaths st + 1
         \<and> (ToRoom (room a), PlayerDamaged (targetPlayerId data) (Fin 0) dmg ''monster'' ''monster'') \<in> set em"
proof -
  from damage_accepted[OF assms(1,2,4,5)] assms(8) have
    run: "playerDamaged now socket (Some data) s = Inr (applyDamage now socket data a t rs s)"
    by auto
  have fd: "finalDamageOf data a t = Fin (max 0 (js_round (of_int (maxHealth (vehicle t)) * (20 / 100))))"
    by (simp add: finalDamageOf_def collisionOr_monster assms(3) Let_def)
  have dead: "js_max (Fin 0) (js_sub (health t) (finalDamageOf data a t)) = Fin 0"
    using assms(6,7) by (simp add: fd)
  show ?thesis
    unfolding run
    using assms(9,10) dead
    by (cases "socket = targetPlayerId data")
       (auto simp: applyDamage_def Let_def collisionOr_monster assms(3) putPlayer_def
          putRoomState_def bumpKills_def bumpDeaths_def AList.update_conv' collisionOr_def)
qed

text \<open>Claim C10: socket \<open>a\<close> reports a monster hit on \<open>b\<close>, a tank with 20 health left.\<close>

theorem monster_kill_credited_witness:
  "\<not> validationFails 5000 ''a'' \<lparr>damage = Number 7, targetPlayerId = ''b'', collisionType = Some ''monster''\<rparr> arena
   \<and> (\<exists>s' em rs' sa' st' dmg.
         playerDamaged 5000 ''a'' (Some \<lparr>damage = Number 7, targetPlayerId = ''b'', collisionType = Some ''monster''\<rparr>) arena = Inr (s', em)
         \<and> gameStates s' (Some ''r1'') = Some rs'
         \<and> map_of (leaderboard rs') ''a'' = Some sa' \<and> kills sa' = 1 \<and> damageDealt sa' = Fin 0
         \<and> map_of (leaderboard rs') ''b'' = Some st' \<and> deaths st' = 1
         \<and> (ToRoom (Some ''r1''), PlayerDamaged ''b'' (Fin 0) dmg ''monster'' ''monster'') \<in> set em)"
proof -
  let ?d = "\<lparr>damage = Number 7, targetPlayerId = ''b'', collisionType = Some ''monster''\<rparr>"
  let ?a = "(newcomer ''a'')\<lparr>room := Some ''r1''\<rparr>"
  let ?b = "(newcomer ''b'')\<lparr>room := Some ''r1'', vehicle := tank, health := Fin 20\<rparr>"
  have h1: "\<not> validationFails 5000 ''a'' ?d arena"
    by (simp add: validationFails_def arena_def arenaRoom_def emptyState_def newcomer_def
          roomPlaying_def shielded_def)
  have h2: "(0::int) \<le> 5000" by simp
  have h3: "collisionType ?d = Some ''monster''" by simp
  have h4: "players arena ''a'' = Some ?a" by (simp add: arena_def)
  have h5: "players arena (targetPlayerId ?d) = Some ?b" by (simp add: arena_def)
  have h6: "health ?b = Fin 20" by simp
  have h7: "20 \<le> js_round (of_int (maxHealth (vehicle ?b)) * (20 / 100))"
    by (simp add: tank_def js_round_def)
  have h8: "gameStates arena (room ?a) = Some arenaRoom" by (simp add: arena_def)
  have h9: "map_of (leaderboard arenaRoom) ''a''
              = Some \<lparr>kills = 0, deaths = 0, damageDealt = Fin 0, playerName = ''Player_a''\<rparr>"
    by (simp add: arenaRoom_def)
  have h10: "map_of (leaderboard arenaRoom) (targetPlayerId ?d)
              = Some \<lparr>kills = 0, deaths = 0, damageDealt = Fin 0, playerName = ''Player_b''\<rparr>"
    by (simp add: arenaRoom_def)
  show ?thesis
    using h1 monster_kill_credited[OF h1 h2 h3 h4 h5 h6 h7 h8 h9 h10] by simp
qed




subsection \<open>Health\<close>

lemma playersOk_upd: "playersOk ps \<Longrightarrow> playerOk p \<Longrightarrow> playersOk (ps(i \<mapsto> p))"
  by (simp add: playersOk_def)

lemma playersOk_del: "playersOk ps \<Longrightarrow> playersOk (ps(i := None))"
  by (simp add: playersOk_def)

lemma playersOk_updI:
  "playersOk ps \<Longrightarrow> ps i = Some p \<Longrightarrow> (playerOk p \<Longrightarrow> playerOk p') \<Longrightarrow> playersOk (ps(i \<mapsto> p'))"
  by (simp add: playersOk_def)

lemma playersOk_get: "playersOk ps \<Longrightarrow> ps i = Some p \<Longrightarrow> playerOk p"
  by (simp add: playersOk_def)

lemma players_getRoom [simp]: "players (fst (getRoomGameState r s)) = players s"
  by (simp add: getRoomGameState_def initializeRoomGameState_def split: option.splits)

lemma players_getRoom': "getRoomGameState r s = (s1, rs) \<Longrightarrow> players s1 = players s"
  using players_getRoom[of r s] by simp

lemma players_putRoomState [simp]: "players (putRoomState r rs s) = players s"
  by (simp add: putRoomState_def)

lemma players_putPlayer [simp]: "players (putPlayer i p s) = (players s)(i \<mapsto> p)"
  by (simp add: putPlayer_def)

lemma presets_maxHealth: "0 < maxHealth (presets i)"
  by (simp add: presets_def sport_def tank_def balanced_def)

lemma finalDamage_numeric:
  "damage data \<noteq> NonNumeric \<Longrightarrow> damage data \<noteq> Undefined \<Longrightarrow>
     \<exists>d. finalDamageOf data a t = Fin d \<and> 0 \<le> d"
  by (cases "damage data") (auto simp: finalDamageOf_def Let_def)


lemma ok_connection: "playersOk (players s) \<Longrightarrow> playersOk (players (fst (connection now orc i s)))"
  by (simp add: connection_def playersOk_upd playerOk_def balanced_def)

lemma ok_playerMove: "playersOk (players s) \<Longrightarrow> playersOk (players (fst (playerMove i pos rot s)))"
  by (auto simp: playerMove_def playerOk_def split: option.splits jsnum.splits elim!: playersOk_updI)

lemma ok_vehicleSelected: "playersOk (players s) \<Longrightarrow> playersOk (players (fst (vehicleSelected i v s)))"
  using presets_maxHealth
  by (auto simp: vehicleSelected_def playerOk_def Let_def less_le split: option.splits jsnum.splits
        elim!: playersOk_updI)

lemma ok_playerLanded: "playersOk (players s) \<Longrightarrow> playersOk (players (fst (playerLanded now i s)))"
  by (auto simp: playerLanded_def playerOk_def split: option.splits jsnum.splits elim!: playersOk_updI)

lemma ok_applyDamage:
  assumes "playersOk (players s)" and "playerOk t"
    and "damage d \<noteq> NonNumeric" and "damage d \<noteq> Undefined"
  shows "playersOk (players (fst (applyDamage now i d a t rs s)))"
proof -
  from finalDamage_numeric[OF assms(3,4), of a t] obtain fd where
    fd: "finalDamageOf d a t = Fin fd" "0 \<le> fd" by blast
  from assms(2) obtain h where h: "health t = Fin h" "0 \<le> h" "h \<le> maxHealth (vehicle t)"
    "maxHealth (vehicle t) \<noteq> 0"
    by (auto simp: playerOk_def split: jsnum.splits)
  have "playerOk (t\<lparr>health := js_max (Fin 0) (js_sub (health t) (finalDamageOf d a t))\<rparr>)"
    using fd h by (simp add: playerOk_def)
  then show ?thesis
    using assms(1) by (auto simp: applyDamage_def Let_def intro!: playersOk_upd)
qed

lemma playerDamaged_cases:
  assumes "playerDamaged now i (Some d) s = Inr (s', em)"
  shows "players s' = players s
         \<or> (\<exists>a t rs s1. players s1 = players s \<and> players s (targetPlayerId d) = Some t
               \<and> damage d \<noteq> Undefined \<and> s' = fst (applyDamage now i d a t rs s1))"
proof (cases "players s i")
  case None
  with assms show ?thesis by (simp add: playerDamaged_def)
next
  case (Some a)
  note pa = this
  show ?thesis
  proof (cases "players s (targetPlayerId d)")
    case None
    with assms pa show ?thesis by (simp add: playerDamaged_def)
  next
    case (Some t)
    obtain s1 rs where g: "getRoomGameState (room a) s = (s1, rs)"
      by (cases "getRoomGameState (room a) s")
    have p1: "players s1 = players s" using players_getRoom'[OF g] .
    from assms pa Some g have
      "s' = s \<or> s' = s1 \<or> (damage d \<noteq> Undefined \<and> s' = fst (applyDamage now i d a t rs s1))"
      by (auto simp: playerDamaged_def split: if_splits)
    with p1 Some show ?thesis by blast
  qed
qed

lemma ok_playerDamaged:
  assumes "playersOk (players s)" and "playerDamaged now i (Some d) s = Inr (s', em)"
    and "damage d \<noteq> NonNumeric"
  shows "playersOk (players s')"
  using playerDamaged_cases[OF assms(2)]
proof
  assume "players s' = players s"
  with assms(1) show ?thesis by simp
next
  assume "\<exists>a t rs s1. players s1 = players s \<and> players s (targetPlayerId d) = Some t
               \<and> damage d \<noteq> Undefined \<and> s' = fst (applyDamage now i d a t rs s1)"
  then obtain a t rs s1 where p1: "players s1 = players s"
    and t: "players s (targetPlayerId d) = Some t" and u: "damage d \<noteq> Undefined"
    and s': "s' = fst (applyDamage now i d a t rs s1)" by blast
  have "playersOk (players s1)" using assms(1) p1 by simp
  moreover have "playerOk t" using playersOk_get[OF assms(1) t] .
  ultimately show ?thesis unfolding s' using assms(3) u by (rule ok_applyDamage)
qed

lemma ok_setNickname: "playersOk (players s) \<Longrightarrow> playersOk (players (fst (setNickname i n s)))"
  by (auto simp: setNickname_def Let_def playerOk_def split: option.splits jsnum.splits prod.splits
        dest!: players_getRoom' elim!: playersOk_updI)

lemma ok_chatMessage: "playersOk (players s) \<Longrightarrow> playersOk (players (fst (chatMessage now i m s)))"
  by (simp add: chatMessage_def)

lemma ok_collectPowerup: "playersOk (players s) \<Longrightarrow> playersOk (players (fst (collectPowerup now i pu s)))"
  by (auto simp: collectPowerup_def Let_def playerOk_def
        split: option.splits jsnum.splits prod.splits powerup_type.splits
        dest!: players_getRoom' elim!: playersOk_updI)

lemma ok_disconnect: "playersOk (players s) \<Longrightarrow> playersOk (players (fst (disconnect now i s)))"
  by (auto simp: disconnect_def Let_def split: option.splits prod.splits intro!: playersOk_del)

lemma ok_requestStandings: "playersOk (players s) \<Longrightarrow> playersOk (players (fst (requestStandings i s)))"
  by (auto simp: requestStandings_def split: option.splits prod.splits dest!: players_getRoom')


lemma ok_resetPlayer:
  "playersOk (fst acc) \<Longrightarrow> playersOk (fst (resetPlayer now orc acc i))"
  by (cases acc) (auto simp: resetPlayer_def Let_def playerOk_def split: option.splits jsnum.splits elim!: playersOk_updI)

lemma ok_foldl_resetPlayer:
  "playersOk (fst acc) \<Longrightarrow> playersOk (fst (foldl (resetPlayer now orc) acc ms))"
  by (induction ms arbitrary: acc) (simp_all add: ok_resetPlayer)

lemma startRound_players:
  "startRound now orc r s = Inr (s', em) \<Longrightarrow>
     \<exists>rs1 members. players s' = fst (foldl (resetPlayer now orc) (players s, rs1) members)"
  by (auto simp: startRound_def Let_def case_prod_beta split: option.splits intro!: exI)

lemma ok_startRound:
  "playersOk (players s) \<Longrightarrow> startRound now orc r s = Inr (s', em) \<Longrightarrow> playersOk (players s')"
  using ok_foldl_resetPlayer[of "(players s, _)"]
  by (auto dest!: startRound_players)

lemma players_endRound [simp]: "players (fst (endRound now r s)) = players s"
  by (auto simp: endRound_def Let_def split: prod.splits dest: players_getRoom')

lemma ok_respawnPlayer:
  "playersOk (players s) \<Longrightarrow> playersOk (players (fst (respawnPlayer now orc r i s)))"
  by (auto simp: respawnPlayer_def Let_def playerOk_def split: option.splits jsnum.splits prod.splits
        dest!: players_getRoom' elim!: playersOk_updI)

lemma ok_respawnDue:
  "playersOk (players s) \<Longrightarrow> playersOk (players (fst (respawnDue now orc r due s)))"
proof (induction due arbitrary: s)
  case Nil
  then show ?case by simp
next
  case (Cons x due)
  obtain i t where x: "x = (i, t)" by (cases x)
  show ?case
    using Cons.IH[of "fst (respawnPlayer now orc r i s)"] Cons.IH[of s] Cons.prems
          ok_respawnPlayer[of s now orc r i]
    by (auto simp: x split: prod.splits)
qed

lemma players_dropPowerup [simp]: "players (fst (dropPowerup now orc r s)) = players s"
  by (auto simp: dropPowerup_def Let_def split: prod.splits dest: players_getRoom')

lemma players_managePowerupDrops [simp]: "players (fst (managePowerupDrops now orc r s)) = players s"
  by (auto simp: managePowerupDrops_def Let_def split: prod.splits dest!: players_getRoom')
     (metis fst_conv players_dropPowerup)+

lemma ok_updateRoom:
  assumes "playersOk (players s)" "updateRoom now orc key s = Inr (s', em)"
  shows "playersOk (players s')"
proof (cases key)
  case None
  with assms show ?thesis by (simp add: updateRoom_def)
next
  case (Some r)
  show ?thesis
  proof (cases "rooms s r")
    case None
    with assms Some show ?thesis by (simp add: updateRoom_def)
  next
    case (Some members)
    note rm = this
    show ?thesis
    proof (cases "gameStates s key")
      case None
      with assms rm \<open>key = Some r\<close> show ?thesis by (simp add: updateRoom_def)
    next
      case (Some roomState)
      from assms(2) \<open>key = Some r\<close> rm Some obtain s1 em1 where
        ph: "(case phase roomState of
                   Waiting \<Rightarrow>
                     if now - orZero (waitingStartTime roomState) \<ge> waitingDuration
                     then startRound now orc r s else Inr (s, [])
                 | Playing \<Rightarrow>
                     if now - orZero (roundStartTime roomState) \<ge> roundDuration
                     then Inr (endRound now r s) else Inr (s, [])
                 | RoundEnd \<Rightarrow> Inr (s, [])) = Inr (s1, em1)"
        and rest: "s' = fst (managePowerupDrops now orc r (fst (respawnDue now orc r
                       (case gameStates s1 key of None \<Rightarrow> [] | Some r1 \<Rightarrow> respawningPlayers r1) s1)))"
        by (auto simp: updateRoom_def split: sum.splits prod.splits)
      have "playersOk (players s1)"
        using ph assms(1) ok_startRound[of s now orc r s1 em1]
        by (cases "phase roomState") (auto split: if_splits simp: prod_eq_iff)
      then show ?thesis unfolding rest by (simp add: ok_respawnDue)
    qed
  qed
qed

lemma ok_updateGameStates:
  "playersOk (players s) \<Longrightarrow> updateGameStates now orc keys s = Inr (s', em) \<Longrightarrow> playersOk (players s')"
proof (induction keys arbitrary: s em)
  case Nil
  then show ?case by simp
next
  case (Cons key keys)
  from Cons.prems(2) obtain s1 em1 em2 where
    a: "updateRoom now orc key s = Inr (s1, em1)" and b: "updateGameStates now orc keys s1 = Inr (s', em2)"
    by (auto split: sum.splits prod.splits)
  from Cons.IH[OF ok_updateRoom[OF Cons.prems(1) a] b] show ?case .
qed

lemma ok_fireTimer:
  "playersOk (players s) \<Longrightarrow> fireTimer now orc s = Inr (s', em) \<Longrightarrow> playersOk (players s')"
  by (auto simp: fireTimer_def split: list.splits if_splits dest!: ok_startRound[rotated])

lemma players_getBoostPads [simp]: "players (fst (getBoostPads r s)) = players s"
  by (simp add: getBoostPads_def split: option.splits)

lemma players_syncLateJoiner [simp]: "players (fst (syncLateJoiner i r rs s)) = players s"
  by (simp add: syncLateJoiner_def Let_def split: phase.splits)

lemma ok_enterRoom:
  "playersOk (players s) \<Longrightarrow> players s i = Some p \<Longrightarrow> playersOk (players (enterRoom now orc i r p s))"
  by (auto simp: enterRoom_def Let_def playerOk_def split: prod.splits jsnum.splits dest!: players_getRoom'
        elim!: playersOk_updI)

lemma players_announceJoin [simp]: "players (fst (announceJoin i r s)) = players s"
  by (simp add: announceJoin_def case_prod_beta split: option.splits)

lemma ok_joinRoom:
  assumes "playersOk (players s)" "joinRoom now orc i rf s = Inr (s', em)"
  shows "playersOk (players s')"
proof -
  define roomId where "roomId = (case rf of None \<Rightarrow> ''default'' | Some r \<Rightarrow> if r = [] then ''default'' else r)"
  show ?thesis
  proof (cases "length (membersOf s roomId) < maxPlayersPerRoom")
    case False
    with assms show ?thesis by (simp add: joinRoom_def Let_def roomId_def)
  next
    case True
    show ?thesis
    proof (cases "players s i")
      case None
      with assms True show ?thesis by (simp add: joinRoom_def Let_def roomId_def)
    next
      case (Some p)
      let ?s1 = "enterRoom now orc i roomId p s"
      have ok1: "playersOk (players ?s1)" using assms(1) Some by (rule ok_enterRoom)
      from assms(2) True Some have
        "\<exists>s2 em2. (if length (membersOf ?s1 roomId) = 1 then startRound now orc roomId ?s1 else Inr (?s1, [])) = Inr (s2, em2)
           \<and> s' = fst (announceJoin i roomId s2)"
        unfolding joinRoom_def Let_def roomId_def[symmetric]
        by (auto simp: case_prod_beta split: sum.splits)
      then obtain s2 em2 where
        st: "(if length (membersOf ?s1 roomId) = 1 then startRound now orc roomId ?s1 else Inr (?s1, [])) = Inr (s2, em2)"
        and fin: "s' = fst (announceJoin i roomId s2)"
        by blast
      have "playersOk (players s2)"
        using st ok1 ok_startRound[of ?s1 now orc roomId s2 em2] by (auto split: if_splits)
      then show ?thesis by (simp add: fin)
    qed
  qed
qed

lemma ok_step:
  assumes "playersOk (players s)" "step now orc e s = Inr (s', em)" "numericDamage e"
  shows "playersOk (players s')"
proof (cases e)
  case (Connection i)
  then show ?thesis using assms ok_connection[of s now orc i] by (auto simp: prod_eq_iff)
next
  case (PlayerMove i pos rot)
  then show ?thesis using assms ok_playerMove[of s i pos rot] by (auto simp: prod_eq_iff)
next
  case (VehicleSelected i v)
  then show ?thesis using assms ok_vehicleSelected[of s i v] by (auto simp: prod_eq_iff)
next
  case (PlayerDamagedEv i d)
  then show ?thesis using assms ok_playerDamaged[of s now i _ s' em]
    by (cases d) (auto simp: numericDamage_def playerDamaged_def)
next
  case (PlayerLanded i)
  then show ?thesis using assms ok_playerLanded[of s now i] by (auto simp: prod_eq_iff)
next
  case (JoinRoom i r)
  then show ?thesis using assms ok_joinRoom[of s now orc i r s' em] by simp
next
  case (SetNickname i n)
  then show ?thesis using assms ok_setNickname[of s i n] by (auto simp: prod_eq_iff)
next
  case (ChatMessageEv i m)
  then show ?thesis using assms ok_chatMessage[of s now i m] by (auto simp: prod_eq_iff)
next
  case (CollectPowerup i pu)
  then show ?thesis using assms ok_collectPowerup[of s now i pu] by (auto simp: prod_eq_iff)
next
  case (Disconnect i)
  then show ?thesis using assms ok_disconnect[of s now i] by (auto simp: prod_eq_iff)
next
  case (RequestStandings i)
  then show ?thesis using assms ok_requestStandings[of s i] by (auto simp: prod_eq_iff)
next
  case (Tick keys)
  then show ?thesis using assms ok_updateGameStates[of s now orc keys s' em] by simp
next
  case Timer
  then show ?thesis using assms ok_fireTimer[of s now orc s' em] by simp
qed

lemma ok_run:
  "playersOk (players s) \<Longrightarrow> \<forall>x \<in> set evs. numericDamage (snd (snd x)) \<Longrightarrow>
     run evs s = Inr s' \<Longrightarrow> playersOk (players s')"
proof (induction evs arbitrary: s)
  case Nil
  then show ?case by simp
next
  case (Cons x evs)
  obtain now orc e where x: "x = (now, orc, e)" by (cases x)
  from Cons.prems(3) x obtain s1 em where
    a: "step now orc e s = Inr (s1, em)" and b: "run evs s1 = Inr s'"
    by (auto split: sum.splits prod.splits)
  have n: "numericDamage e" using Cons.prems(2) x by simp
  have r: "\<forall>x \<in> set evs. numericDamage (snd (snd x))" using Cons.prems(2) by simp
  from Cons.IH[OF ok_step[OF Cons.prems(1) a n] r b] show ?case .
qed

lemma ok_boot: "playersOk (players booted)"
  by (simp add: booted_def boot_def emptyState_def initializeRoomGameState_def playersOk_def)

text \<open>
  As long as no damage payload carries a value that the operators read as \<^verbatim>\<open>NaN\<close>,
  every player's health is a number between 0 and the maximum health of the player's
  vehicle, in every state a run from boot reaches.
\<close>

lemma health_in_range_while_damage_is_numeric:
  assumes "run evs booted = Inr s" and "\<forall>x \<in> set evs. numericDamage (snd (snd x))"
    and "players s i = Some p"
  shows "\<exists>h. health p = Fin h \<and> 0 \<le> h \<and> h \<le> maxHealth (vehicle p)"
  using playersOk_get[OF ok_run[OF ok_boot assms(2,1)] assms(3)]
  by (auto simp: playerOk_def split: jsnum.splits)

text \<open>
  Claim C3 at a run. Sockets \<open>a\<close> and \<open>b\<close> join \<open>r1\<close>; \<open>a\<close> sends a damage event on \<open>b\<close>
  whose damage is a word. The check \<^verbatim>\<open>damage === undefined || damage < 0\<close> lets it pass,
  \<^verbatim>\<open>Math.round\<close> of the product is \<^verbatim>\<open>NaN\<close>, and so is the health of \<open>b\<close> from then on:
  neither a vehicle change nor a later numeric hit brings it back into the range.
\<close>

theorem non_numeric_damage_makes_health_NaN:
  "healthAfter
     [(0, rng0, Connection ''a''), (0, rng0, Connection ''b''),
      (10, rng0, JoinRoom ''a'' (Some ''r1'')), (20, rng0, JoinRoom ''b'' (Some ''r1''))] ''b''
     = Inr (Some (Fin 100))
   \<and> healthAfter
     [(0, rng0, Connection ''a''), (0, rng0, Connection ''b''),
      (10, rng0, JoinRoom ''a'' (Some ''r1'')), (20, rng0, JoinRoom ''b'' (Some ''r1'')),
      (9000, rng0, PlayerDamagedEv ''a''
         (Some \<lparr>damage = NonNumeric, targetPlayerId = ''b'', collisionType = None\<rparr>))] ''b''
     = Inr (Some NaN)
   \<and> healthAfter
     [(0, rng0, Connection ''a''), (0, rng0, Connection ''b''),
      (10, rng0, JoinRoom ''a'' (Some ''r1'')), (20, rng0, JoinRoom ''b'' (Some ''r1'')),
      (9000, rng0, PlayerDamagedEv ''a''
         (Some \<lparr>damage = NonNumeric, targetPlayerId = ''b'', collisionType = None\<rparr>)),
      (9100, rng0, VehicleSelected ''b'' (Some ''tank'')),
      (9200, rng0, PlayerDamagedEv ''a''
         (Some \<lparr>damage = Number 30, targetPlayerId = ''b'', collisionType = Some ''side''\<rparr>))] ''b''
     = Inr (Some NaN)"
  by code_simp

subsection \<open>Disconnects\<close>

text \<open>
  What a disconnect does: it deletes the socket's registry entry and removes the socket
  from the membership list of its room; it reads and writes no round state.
\<close>

lemma disconnect_removes_member_and_record:
  assumes "players s socket = Some p" and "roomOf p = Some r" and "distinct (membersOf s r)"
  shows "players (fst (disconnect now socket s)) socket = None
       \<and> socket \<notin> set (membersOf (fst (disconnect now socket s)) r)
       \<and> gameStates (fst (disconnect now socket s)) = gameStates s"
  using assms
  by (auto simp: disconnect_def membersOf_def Let_def split: option.splits)


text \<open>
  Claim C4 at a run. Three sockets join \<open>r1\<close>; \<open>a\<close> destroys \<open>b\<close>; then \<open>b\<close> and \<open>c\<close>
  disconnect. Both are gone from the registry and from the membership list, yet \<open>c\<close> is
  still in \<open>activePlayers\<close> and \<open>b\<close> still in \<open>respawningPlayers\<close>: the handler removes
  the player from the room and from the registry and leaves the two round collections
  out.
\<close>

theorem disconnect_leaves_round_sets:
  "registeredAfter
     [(0, rng0, Connection ''a''), (0, rng0, Connection ''b''), (0, rng0, Connection ''c''),
      (10, rng0, JoinRoom ''a'' (Some ''r1'')), (20, rng0, JoinRoom ''b'' (Some ''r1'')),
      (30, rng0, JoinRoom ''c'' (Some ''r1'')),
      (9000, rng0, PlayerDamagedEv ''a''
         (Some \<lparr>damage = Number 100, targetPlayerId = ''b'', collisionType = Some ''head-on''\<rparr>)),
      (9500, rng0, Disconnect ''b''), (9600, rng0, Disconnect ''c'')] ''b'' = Inr False
   \<and> registeredAfter
     [(0, rng0, Connection ''a''), (0, rng0, Connection ''b''), (0, rng0, Connection ''c''),
      (10, rng0, JoinRoom ''a'' (Some ''r1'')), (20, rng0, JoinRoom ''b'' (Some ''r1'')),
      (30, rng0, JoinRoom ''c'' (Some ''r1'')),
      (9000, rng0, PlayerDamagedEv ''a''
         (Some \<lparr>damage = Number 100, targetPlayerId = ''b'', collisionType = Some ''head-on''\<rparr>)),
      (9500, rng0, Disconnect ''b''), (9600, rng0, Disconnect ''c'')] ''c'' = Inr False
   \<and> membersAfter
     [(0, rng0, Connection ''a''), (0, rng0, Connection ''b''), (0, rng0, Connection ''c''),
      (10, rng0, JoinRoom ''a'' (Some ''r1'')), (20, rng0, JoinRoom ''b'' (Some ''r1'')),
      (30, rng0, JoinRoom ''c'' (Some ''r1'')),
      (9000, rng0, PlayerDamagedEv ''a''
         (Some \<lparr>damage = Number 100, targetPlayerId = ''b'', collisionType = Some ''head-on''\<rparr>)),
      (9500, rng0, Disconnect ''b''), (9600, rng0, Disconnect ''c'')] ''r1'' = Inr (Some [''a''])
   \<and> activeAfter
     [(0, rng0, Connection ''a''), (0, rng0, Connection ''b''), (0, rng0, Connection ''c''),
      (10, rng0, JoinRoom ''a'' (Some ''r1'')), (20, rng0, JoinRoom ''b'' (Some ''r1'')),
      (30, rng0, JoinRoom ''c'' (Some ''r1'')),
      (9000, rng0, PlayerDamagedEv ''a''
         (Some \<lparr>damage = Number 100, targetPlayerId = ''b'', collisionType = Some ''head-on''\<rparr>)),
      (9500, rng0, Disconnect ''b''), (9600, rng0, Disconnect ''c'')] ''r1'' = Inr [''a'', ''c'']
   \<and> respawningAfter
     [(0, rng0, Connection ''a''), (0, rng0, Connection ''b''), (0, rng0, Connection ''c''),
      (10, rng0, JoinRoom ''a'' (Some ''r1'')), (20, rng0, JoinRoom ''b'' (Some ''r1'')),
      (30, rng0, JoinRoom ''c'' (Some ''r1'')),
      (9000, rng0, PlayerDamagedEv ''a''
         (Some \<lparr>damage = Number 100, targetPlayerId = ''b'', collisionType = Some ''head-on''\<rparr>)),
      (9500, rng0, Disconnect ''b''), (9600, rng0, Disconnect ''c'')] ''r1'' = Inr [(''b'', 12000)]"
  by code_simp

text \<open>
  Claim C9, as the code has it. When the only member of a room disconnects, the room's
  membership list is deleted, whatever the room's id; the room's round state stays.
\<close>

theorem last_member_disconnects:
  assumes "players s socket = Some p" and "roomOf p = Some r" and "rooms s r = Some [socket]"
  shows "rooms (fst (disconnect now socket s)) r = None
       \<and> gameStates (fst (disconnect now socket s)) = gameStates s"
  using assms by (simp add: disconnect_def Let_def)

text \<open>
  Claim C9 as stated fails for the room \<open>default\<close>: it is there after boot, and it is
  deleted when its only member disconnects.
\<close>

theorem default_room_deleted_counterexample:
  "membersAfter [] ''default'' = Inr (Some [])
   \<and> membersAfter [(0, rng0, Connection ''a''), (10, rng0, JoinRoom ''a'' None)] ''default''
       = Inr (Some [''a''])
   \<and> membersAfter [(0, rng0, Connection ''a''), (10, rng0, JoinRoom ''a'' None),
                    (20, rng0, Disconnect ''a'')] ''default'' = Inr None"
  by code_simp

text \<open>Claim C9: the only member of \<open>default\<close> disconnects.\<close>

theorem last_member_disconnects_witness:
  "rooms solo ''default'' = Some [''a'']
   \<and> rooms (fst (disconnect 20 ''a'' solo)) ''default'' = None
   \<and> gameStates (fst (disconnect 20 ''a'' solo)) (Some ''default'') = gameStates solo (Some ''default'')"
proof -
  have h1: "players solo ''a'' = Some ((newcomer ''a'')\<lparr>room := Some ''default''\<rparr>)"
    by (simp add: solo_def)
  have h2: "roomOf ((newcomer ''a'')\<lparr>room := Some ''default''\<rparr>) = Some ''default''"
    by (simp add: roomOf_def)
  have h3: "rooms solo ''default'' = Some [''a'']" by (simp add: solo_def)
  from last_member_disconnects[OF h1 h2 h3, of 20] h3 show ?thesis by simp
qed

text \<open>Leaving a room by joining another one keeps the list, empty.\<close>

lemma leaving_by_join_keeps_empty_list:
  "membersAfter [(0, rng0, Connection ''a''), (10, rng0, JoinRoom ''a'' (Some ''r1'')),
                 (20, rng0, JoinRoom ''a'' (Some ''r2''))] ''r1'' = Inr (Some [])"
  by code_simp

subsection \<open>Chat\<close>

text \<open>
  Claim C5 at a two-member room: sockets \<open>a\<close> and \<open>b\<close> connect and join \<open>r1\<close>, then \<open>a\<close>
  sends \<open>'' hi''\<close>. The first listener relays the trimmed text to \<open>b\<close>; the second relays
  the text as sent to the whole room. So \<open>b\<close> receives the message twice and \<open>a\<close> receives
  its own message.
\<close>

theorem chat_relayed_twice_and_echoed:
  "receivedAfter
     [(0, rng0, Connection ''a''), (0, rng0, Connection ''b''),
      (10, rng0, JoinRoom ''a'' (Some ''r1'')), (20, rng0, JoinRoom ''b'' (Some ''r1''))]
     (30, rng0, ChatMessageEv ''a'' (Some '' hi'')) ''b''
     = Inr [ChatMessage ''a'' ''Player_a'' ''hi'' 30 False,
            ChatMessage ''a'' ''Player_a'' '' hi'' 30 False]
   \<and> receivedAfter
     [(0, rng0, Connection ''a''), (0, rng0, Connection ''b''),
      (10, rng0, JoinRoom ''a'' (Some ''r1'')), (20, rng0, JoinRoom ''b'' (Some ''r1''))]
     (30, rng0, ChatMessageEv ''a'' (Some '' hi'')) ''a''
     = Inr [ChatMessage ''a'' ''Player_a'' '' hi'' 30 False]"
  by code_simp

text \<open>
  A message of more than 200 characters passes the first listener only, which relays
  its first 200 characters after trimming, to the other members.
\<close>

lemma long_chat_relayed_once:
  assumes "players s i = Some p" and "roomOf p = Some r" and "200 < length m"
  shows "snd (chatMessage now i (Some m) s)
           = [(ToOthers i (Some r), ChatMessage i (displayName p i) (take 200 (js_trim m)) now False)]"
  using assms by (auto simp: chatMessage_def chatMessageFirst_def chatMessageSecond_def Let_def)

subsection \<open>The restart timer\<close>

text \<open>
  Claim C6 at the run it names: the only member of \<open>r1\<close> disconnects during the round-end
  phase, which deletes the room's membership list; when the restart timer fires,
  \<^verbatim>\<open>startRound\<close> calls \<^verbatim>\<open>forEach\<close> on \<^verbatim>\<open>undefined\<close>.
\<close>

theorem restart_timer_crashes:
  "phaseAfter [(0, rng0, Connection ''a''),
               (10, rng0, JoinRoom ''a'' (Some ''r1'')),
               (240010, rng0, Tick [Some ''default'', Some ''r1''])] ''r1'' = Inr (Some RoundEnd)
   \<and> membersAfter [(0, rng0, Connection ''a''),
               (10, rng0, JoinRoom ''a'' (Some ''r1'')),
               (240010, rng0, Tick [Some ''default'', Some ''r1'']),
               (250000, rng0, Disconnect ''a'')] ''r1'' = Inr None
   \<and> errorAfter [(0, rng0, Connection ''a''),
          (10, rng0, JoinRoom ''a'' (Some ''r1'')),
          (240010, rng0, Tick [Some ''default'', Some ''r1'']),
          (250000, rng0, Disconnect ''a'')] = None
   \<and> errorAfter [(0, rng0, Connection ''a''),
          (10, rng0, JoinRoom ''a'' (Some ''r1'')),
          (240010, rng0, Tick [Some ''default'', Some ''r1'']),
          (250000, rng0, Disconnect ''a''),
          (260010, rng0, Timer)] = Some TypeError"
  by code_simp

text \<open>The respawn loop of the tick does check the player it is about to respawn.\<close>

lemma respawn_of_departed_player_is_noop:
  "players s i = None \<Longrightarrow> gameStates s (Some r) = Some rs \<Longrightarrow>
     respawnPlayer now orc r i s = (s, [])"
  by (simp add: respawnPlayer_def getRoomGameState_def)

subsection \<open>When a powerup drops\<close>

text \<open>
  \<open>activePlayers\<close> stays free of duplicates under the two operations the handlers use on
  it, so its length is the size of the set.
\<close>

lemma distinct_set_add: "distinct xs \<Longrightarrow> distinct (set_add x xs)"
  by (simp add: set_add_def)

lemma distinct_set_delete: "distinct xs \<Longrightarrow> distinct (set_delete x xs)"
  by (simp add: set_delete_def distinct_removeAll)

lemma getRoom_Some: "gameStates s r = Some rs \<Longrightarrow> getRoomGameState r s = (s, rs)"
  by (simp add: getRoomGameState_def)

lemma getRoom_None:
  "gameStates s r = None \<Longrightarrow> getRoomGameState r s = (initializeRoomGameState r s, initialRoomState)"
  by (simp add: getRoomGameState_def)

lemma gameStates_putRoomState [simp]:
  "gameStates (putRoomState r rs s) = (gameStates s)(r \<mapsto> rs)"
  by (simp add: putRoomState_def)

lemma gameStates_putPlayer [simp]: "gameStates (putPlayer i p s) = gameStates s"
  by (simp add: putPlayer_def)

lemma dropPowerup_state:
  assumes "gameStates s (Some r) = Some rs"
  shows "\<exists>rs'. gameStates (fst (dropPowerup now orc r s)) (Some r) = Some rs'
           \<and> phase rs' = phase rs \<and> activePlayers rs' = activePlayers rs"
  using assms
  by (auto simp: dropPowerup_def getRoom_Some Let_def split: prod.splits)

lemma managePowerupDrops_drop:
  assumes "managePowerupDrops now orc r s = (s', em)" and "(d, PowerupDropped i ty pos lt) \<in> set em"
  shows "\<exists>rs rs'. gameStates s (Some r) = Some rs \<and> gameStates s' (Some r) = Some rs'
           \<and> phase rs' = Playing \<and> activePlayers rs' = activePlayers rs
           \<and> 2 \<le> length (activePlayers rs)
           \<and> getPowerupDropInterval (int (length (activePlayers rs))) \<le> now - lastPowerupDrop rs"
proof (cases "gameStates s (Some r)")
  case None
  with assms show ?thesis
    by (auto simp: managePowerupDrops_def getRoomGameState_def initialRoomState_def Let_def)
next
  case (Some rs)
  show ?thesis
  proof (cases "phase rs \<noteq> Playing \<or> length (activePlayers rs) < 2")
    case True
    with assms Some show ?thesis
      by (auto simp: managePowerupDrops_def getRoom_Some Let_def)
  next
    case False
    show ?thesis
    proof (cases "getPowerupDropInterval (int (length (activePlayers rs))) \<le> now - lastPowerupDrop rs")
      case True
      from dropPowerup_state[OF Some, of now orc] obtain rs1 where
        g1: "gameStates (fst (dropPowerup now orc r s)) (Some r) = Some rs1"
        and p1: "phase rs1 = phase rs" and a1: "activePlayers rs1 = activePlayers rs" by blast
      have "s' = putRoomState (Some r)
                   (rs1\<lparr>powerups := filter (\<lambda>kv. \<not> expired now (snd kv)) (powerups rs1)\<rparr>)
                   (fst (dropPowerup now orc r s))"
        using assms(1) Some False True g1
        by (auto simp: managePowerupDrops_def getRoom_Some Let_def split: prod.splits)
      then show ?thesis using Some False True p1 a1 by auto
    next
      case nodrop: False
      with assms Some False show ?thesis
        by (auto simp: managePowerupDrops_def getRoom_Some Let_def)
    qed
  qed
qed

lemma lastDrop_resetPlayer:
  "lastPowerupDrop (snd (resetPlayer now orc acc i)) = lastPowerupDrop (snd acc)"
  by (cases acc) (auto simp: resetPlayer_def Let_def split: option.splits)

lemma lastDrop_foldl_resetPlayer:
  "lastPowerupDrop (snd (foldl (resetPlayer now orc) acc ms)) = lastPowerupDrop (snd acc)"
  by (induction ms arbitrary: acc) (simp_all add: lastDrop_resetPlayer)

lemma startRound_lastDrop:
  assumes "startRound now orc r s = Inr (s', em)" and "gameStates s (Some r) = Some rs"
  shows "(\<exists>rs'. gameStates s' (Some r) = Some rs' \<and> lastPowerupDrop rs' = lastPowerupDrop rs)
         \<and> (\<forall>e \<in> set em. \<not> isDrop e)"
  using assms
  by (auto simp: startRound_def getRoom_Some Let_def case_prod_beta lastDrop_foldl_resetPlayer isDrop_def
        split: option.splits)

lemma endRound_lastDrop:
  assumes "gameStates s (Some r) = Some rs"
  shows "(\<exists>rs'. gameStates (fst (endRound now r s)) (Some r) = Some rs' \<and> lastPowerupDrop rs' = lastPowerupDrop rs)
         \<and> (\<forall>e \<in> set (snd (endRound now r s)). \<not> isDrop e)"
  using assms
  by (auto simp: endRound_def getRoom_Some Let_def isDrop_def)

lemma respawnPlayer_lastDrop:
  assumes "gameStates s (Some r) = Some rs"
  shows "(\<exists>rs'. gameStates (fst (respawnPlayer now orc r i s)) (Some r) = Some rs' \<and> lastPowerupDrop rs' = lastPowerupDrop rs)
         \<and> (\<forall>e \<in> set (snd (respawnPlayer now orc r i s)). \<not> isDrop e)"
  using assms
  by (auto simp: respawnPlayer_def getRoom_Some Let_def isDrop_def split: option.splits)

lemma respawnDue_lastDrop:
  assumes "gameStates s (Some r) = Some rs"
  shows "(\<exists>rs'. gameStates (fst (respawnDue now orc r due s)) (Some r) = Some rs' \<and> lastPowerupDrop rs' = lastPowerupDrop rs)
         \<and> (\<forall>e \<in> set (snd (respawnDue now orc r due s)). \<not> isDrop e)"
  using assms
proof (induction due arbitrary: s rs)
  case Nil
  then show ?case by simp
next
  case (Cons x due)
  obtain i t where x: "x = (i, t)" by (cases x)
  show ?case
  proof (cases "now \<ge> t")
    case True
    from respawnPlayer_lastDrop[OF Cons.prems, of now orc i] obtain rs1 where
      g: "gameStates (fst (respawnPlayer now orc r i s)) (Some r) = Some rs1"
      and l: "lastPowerupDrop rs1 = lastPowerupDrop rs"
      and e: "\<forall>e \<in> set (snd (respawnPlayer now orc r i s)). \<not> isDrop e" by blast
    from Cons.IH[OF g] l e True show ?thesis
      by (auto simp: x case_prod_beta)
  next
    case False
    with Cons.IH[OF Cons.prems] show ?thesis by (auto simp: x case_prod_beta)
  qed
qed


text \<open>
  What the drop check ensures: if the tick of a room emits \<^verbatim>\<open>powerupDropped\<close>, the room
  has a membership list and a round state, its phase is playing, \<open>activePlayers\<close> lists
  at least 2 ids, and the time since the last drop recorded before the tick is at least
  \<open>max 15000 (30000 - (count - 2) * 2500)\<close>.
\<close>

lemma drop_needs_two_listed_players:
  assumes "updateRoom now orc key s = Inr (s', em)"
    and "(d, PowerupDropped i ty pos lt) \<in> set em"
  shows "\<exists>roomId rs rs'. key = Some roomId \<and> rooms s roomId \<noteq> None
           \<and> gameStates s key = Some rs \<and> gameStates s' key = Some rs'
           \<and> phase rs' = Playing \<and> 2 \<le> length (activePlayers rs')
           \<and> max 15000 (30000 - (int (length (activePlayers rs')) - 2) * 2500)
                \<le> now - lastPowerupDrop rs"
proof -
  from assms obtain roomId where key: "key = Some roomId"
    by (cases key) (auto simp: updateRoom_def)
  from assms key obtain members where rm: "rooms s roomId = Some members"
    by (cases "rooms s roomId") (auto simp: updateRoom_def)
  from assms key rm obtain rs where gs: "gameStates s (Some roomId) = Some rs"
    by (cases "gameStates s (Some roomId)") (auto simp: updateRoom_def)
  let ?first = "(case phase rs of
                   Waiting \<Rightarrow>
                     if now - orZero (waitingStartTime rs) \<ge> waitingDuration
                     then startRound now orc roomId s else Inr (s, [])
                 | Playing \<Rightarrow>
                     if now - orZero (roundStartTime rs) \<ge> roundDuration
                     then Inr (endRound now roomId s) else Inr (s, [])
                 | RoundEnd \<Rightarrow> Inr (s, []))"
  from assms(1) key rm gs obtain s1 em1 where f: "?first = Inr (s1, em1)"
    by (cases ?first) (auto simp: updateRoom_def)
  have "\<exists>rs1. gameStates s1 (Some roomId) = Some rs1 \<and> lastPowerupDrop rs1 = lastPowerupDrop rs"
    and nd1: "\<forall>e \<in> set em1. \<not> isDrop e"
    using f gs startRound_lastDrop[of now orc roomId s s1 em1 rs] endRound_lastDrop[OF gs, of now]
    by (cases "phase rs"; auto split: if_splits simp: prod_eq_iff)+
  then obtain rs1 where g1: "gameStates s1 (Some roomId) = Some rs1"
    and l1: "lastPowerupDrop rs1 = lastPowerupDrop rs" by blast
  let ?second = "respawnDue now orc roomId (respawningPlayers rs1) s1"
  from respawnDue_lastDrop[OF g1, of now orc "respawningPlayers rs1"] obtain rs2 where
    g2: "gameStates (fst ?second) (Some roomId) = Some rs2"
    and l2: "lastPowerupDrop rs2 = lastPowerupDrop rs1"
    and nd2: "\<forall>e \<in> set (snd ?second). \<not> isDrop e" by blast
  let ?third = "managePowerupDrops now orc roomId (fst ?second)"
  have s': "s' = fst ?third" and em: "em = em1 @ snd ?second @ snd ?third"
    using assms(1) key rm gs f g1 by (auto simp: updateRoom_def case_prod_beta)
  have "(d, PowerupDropped i ty pos lt) \<in> set (snd ?third)"
    using assms(2) nd1 nd2 unfolding em by (auto simp: isDrop_def)
  from managePowerupDrops_drop[OF prod.collapse[symmetric] this] g2 obtain rs' where
    "gameStates (fst ?third) (Some roomId) = Some rs'" "phase rs' = Playing"
    "activePlayers rs' = activePlayers rs2" "2 \<le> length (activePlayers rs2)"
    "getPowerupDropInterval (int (length (activePlayers rs2))) \<le> now - lastPowerupDrop rs2"
    by auto
  then show ?thesis using key rm gs l1 l2 s'
    by (auto simp: getPowerupDropInterval_def Let_def)
qed


text \<open>
  Claim C7 at a run. Sockets \<open>a\<close> and \<open>b\<close> join \<open>r1\<close> and \<open>b\<close> disconnects, which leaves
  its id in \<open>activePlayers\<close>. The next tick reads \<^verbatim>\<open>activePlayers.size\<close> as 2 and drops a
  powerup for \<open>a\<close>, the only player in the room.
\<close>

theorem lone_player_gets_powerup:
  "membersAfter
     [(0, rng0, Connection ''a''), (0, rng0, Connection ''b''),
      (10, rng0, JoinRoom ''a'' (Some ''r1'')), (20, rng0, JoinRoom ''b'' (Some ''r1'')),
      (25, rng0, Disconnect ''b'')] ''r1'' = Inr (Some [''a''])
   \<and> registeredAfter
     [(0, rng0, Connection ''a''), (0, rng0, Connection ''b''),
      (10, rng0, JoinRoom ''a'' (Some ''r1'')), (20, rng0, JoinRoom ''b'' (Some ''r1'')),
      (25, rng0, Disconnect ''b'')] ''b'' = Inr False
   \<and> activeAfter
     [(0, rng0, Connection ''a''), (0, rng0, Connection ''b''),
      (10, rng0, JoinRoom ''a'' (Some ''r1'')), (20, rng0, JoinRoom ''b'' (Some ''r1'')),
      (25, rng0, Disconnect ''b'')] ''r1'' = Inr [''a'', ''b'']
   \<and> receivedAfter
     [(0, rng0, Connection ''a''), (0, rng0, Connection ''b''),
      (10, rng0, JoinRoom ''a'' (Some ''r1'')), (20, rng0, JoinRoom ''b'' (Some ''r1'')),
      (25, rng0, Disconnect ''b'')]
     (30000, rng0, Tick [Some ''default'', Some ''r1'']) ''a''
     = Inr [PowerupDropped ''powerup_x_0'' HealthPowerup (-60, 25, -40) 33000]"
  by code_simp

text \<open>With \<open>a\<close> alone from the start, the same tick drops nothing.\<close>

lemma single_player_gets_no_powerup:
  "receivedAfter
     [(0, rng0, Connection ''a''), (10, rng0, JoinRoom ''a'' (Some ''r1''))]
     (30000, rng0, Tick [Some ''default'', Some ''r1'']) ''a'' = Inr []"
  by code_simp

subsection \<open>Collecting a powerup twice\<close>

text \<open>A request for an id the requester's room does not hold is dropped.\<close>

lemma collection_of_absent_powerup_is_noop:
  assumes "players s i = Some p" and "roomOf p = Some r"
    and "gameStates s (Some r) = Some rs" and "map_of (powerups rs) pid = None"
  shows "collectPowerup now i pid s = (s, [])"
  using assms by (simp add: collectPowerup_def getRoom_Some)

text \<open>
  Claim C8. After a collection request for a powerup id has succeeded in room \<open>r\<close>, a
  further request for that id by any socket changes nothing and emits nothing. For a
  requester in another room this needs that room to hold no powerup of the same id
  (\<^verbatim>\<open>generatePowerupId\<close> makes ids from a random string and the clock; the model's \<open>rng\<close>
  is arbitrary, so the theorem says it).
\<close>

theorem second_collection_is_noop:
  assumes "collectPowerup now socket pid s = (s1, em1)"
    and "(ToRoom (Some r), PowerupCollected pid socket ty) \<in> set em1"
    and "\<forall>q r'. players s1 other = Some q \<and> roomOf q = Some r' \<and> r' \<noteq> r \<longrightarrow>
           (\<exists>rs'. gameStates s1 (Some r') = Some rs' \<and> map_of (powerups rs') pid = None)"
  shows "collectPowerup now' other pid s1 = (s1, [])"
proof -
  have gone: "\<exists>rs1. gameStates s1 (Some r) = Some rs1 \<and> map_of (powerups rs1) pid = None"
    using assms(1,2)
    by (auto simp: collectPowerup_def Let_def getRoomGameState_def initializeRoomGameState_def
          initialRoomState_def AList.delete_conv'
        split: option.splits if_splits prod.splits powerup_type.splits)
  then obtain rs1 where g: "gameStates s1 (Some r) = Some rs1" and n: "map_of (powerups rs1) pid = None"
    by blast
  show ?thesis
  proof (cases "players s1 other")
    case None
    then show ?thesis by (simp add: collectPowerup_def)
  next
    case (Some q)
    show ?thesis
    proof (cases "roomOf q")
      case None
      with Some show ?thesis by (simp add: collectPowerup_def)
    next
      case (Some r')
      note rq = this
      show ?thesis
      proof (cases "r' = r")
        case True
        with \<open>players s1 other = Some q\<close> rq g n show ?thesis
          by (simp add: collectPowerup_def getRoom_Some)
      next
        case False
        with assms(3) \<open>players s1 other = Some q\<close> rq obtain rs' where
          "gameStates s1 (Some r') = Some rs'" "map_of (powerups rs') pid = None" by blast
        with \<open>players s1 other = Some q\<close> rq show ?thesis
          by (simp add: collectPowerup_def getRoom_Some)
      qed
    qed
  qed
qed

text \<open>
  Claim C8: the tank \<open>b\<close> (20 health) collects the health powerup and is healed to 60; the
  request of \<open>a\<close> for the same powerup is then dropped.
\<close>

theorem second_collection_is_noop_witness:
  "\<exists>s1 em1. collectPowerup 5000 ''b'' ''pu1'' arena = (s1, em1)
     \<and> (ToRoom (Some ''r1''), PowerupCollected ''pu1'' ''b'' HealthPowerup) \<in> set em1
     \<and> map_option health (players s1 ''b'') = Some (Fin 60)
     \<and> collectPowerup 6000 ''a'' ''pu1'' s1 = (s1, [])"
proof -
  obtain s1 em1 where c: "collectPowerup 5000 ''b'' ''pu1'' arena = (s1, em1)"
    by (cases "collectPowerup 5000 ''b'' ''pu1'' arena")
  have e: "(ToRoom (Some ''r1''), PowerupCollected ''pu1'' ''b'' HealthPowerup) \<in> set em1"
    and h: "map_option health (players s1 ''b'') = Some (Fin 60)"
    and ra: "\<forall>q r'. players s1 ''a'' = Some q \<and> roomOf q = Some r' \<and> r' \<noteq> ''r1'' \<longrightarrow>
           (\<exists>rs'. gameStates s1 (Some r') = Some rs' \<and> map_of (powerups rs') ''pu1'' = None)"
    using c
    by (auto simp: collectPowerup_def arena_def arenaRoom_def emptyState_def newcomer_def roomOf_def
          getRoomGameState_def tank_def Let_def putPlayer_def putRoomState_def)
  from second_collection_is_noop[OF c e ra] c e h show ?thesis by blast
qed

end
